theory Spec2Isabelle
  imports Main "HOL-Library.Multiset"
begin

section \<open>Data model\<close>

text \<open>
  The tables of \<^verbatim>\<open>initDatabase\<close> (db/database.js), restricted to the columns the
  booking ledger reads or writes. A table is the list of its rows, in insertion order.
  Both status columns carry a \<^verbatim>\<open>CHECK (... IN (...))\<close> constraint, so they are
  enumerations.

  Seat counts and prices are whole numbers: a request or a row whose numbers have a
  fractional part is outside the model. The routes compute with IEEE doubles. Sums and
  differences of seat counts are written exactly, which is what the code computes as long as
  the numbers are safe integers (\<open>safe_integer\<close>, magnitude at most \<open>2^53 - 1\<close>); the
  product of a price and a seat count is rounded as the multiplication of two doubles
  rounds it (\<open>js_times\<close>).
\<close>

datatype ride_status = Available | Active | Completed | Cancelled

datatype booking_status = BPending | BConfirmed | BCancelled | BCompleted

record ride =
  r_id :: string
  driver_id :: string
  total_seats :: int
  available_seats :: int
  price_per_seat :: int
  status :: ride_status

record booking =
  b_id :: string
  ride_id :: string
  passenger_id :: string
  seats_booked :: int
  booking_status :: booking_status
  total_price :: int

text \<open>
  The text of a notification is a template filled with values of the booking and the
  ride; the model keeps the values and drops the formatting:
  \<^item> \<open>NewBooking seats total\<close> for the message of a created booking,
  \<^item> \<open>BookingCancelled seats refund newAvailableSeats\<close> for a cancelled booking,
  \<^item> \<open>RideCancelled seats refund reason\<close> for a cancelled ride.
\<close>

datatype notice =
    NewBooking int int
  | BookingCancelled int int int
  | RideCancelled int int "string option"

record ride_message =
  m_ride_id :: string
  sender_id :: string
  receiver_id :: string
  message :: notice

record db =
  rides :: "ride list"
  ride_bookings :: "booking list"
  ride_messages :: "ride_message list"

text \<open>
  What a handler sends: \<^verbatim>\<open>res.status(c).json(payload)\<close> is \<open>Json c payload\<close>,
  \<^verbatim>\<open>res.status(c).json({ message: m })\<close> is \<open>Failure c m\<close>.
\<close>

datatype 'a response = Json nat 'a | Failure nat string

fun is_failure :: "'a response \<Rightarrow> bool" where
  "is_failure (Failure c m) = True"
| "is_failure (Json c x) = False"

section \<open>Numbers\<close>

text \<open>\<^verbatim>\<open>Number.MAX_SAFE_INTEGER\<close>, and the integers every double up to it represents exactly.\<close>

definition max_safe_integer :: int where
  "max_safe_integer = 9007199254740991"

definition safe_integer :: "int \<Rightarrow> bool" where
  "safe_integer n \<longleftrightarrow> - max_safe_integer \<le> n \<and> n \<le> max_safe_integer"

text \<open>The number of binary digits of a positive integer.\<close>

function bit_length :: "int \<Rightarrow> nat" where
  "bit_length n = (if n \<le> 0 then 0 else Suc (bit_length (n div 2)))"
  by pat_completeness auto
termination
  by (relation "measure nat") auto

declare bit_length.simps [simp del]

text \<open>
  The double nearest to an integer: a significand of 53 binary digits, the digits below it
  rounded to nearest, a tie to the even significand. (A magnitude of \<open>2^1024\<close> or more,
  which the code holds as \<^verbatim>\<open>Infinity\<close>, is outside the model.)
\<close>

definition to_double :: "int \<Rightarrow> int" where
  "to_double x =
     (let m = \<bar>x\<bar>;
          k = bit_length m - 53;
          q = m div 2 ^ k;
          r = m mod 2 ^ k;
          q' = (if 2 ^ k < 2 * r \<or> (2 * r = 2 ^ k \<and> odd q) then q + 1 else q)
      in sgn x * (q' * 2 ^ k))"

text \<open>\<^verbatim>\<open>a * b\<close> on two numbers that hold integers.\<close>

definition js_times :: "int \<Rightarrow> int \<Rightarrow> int" where
  "js_times a b = to_double (a * b)"

section \<open>SQL statements\<close>

text \<open>\<^verbatim>\<open>SELECT * FROM rides WHERE id = ?\<close> with \<^verbatim>\<open>.get\<close>: the first row or undefined.\<close>

definition select_ride :: "db \<Rightarrow> string \<Rightarrow> ride option" where
  "select_ride d i = find (\<lambda>r. r_id r = i) (rides d)"

text \<open>\<^verbatim>\<open>SELECT * FROM ride_bookings WHERE id = ?\<close> with \<^verbatim>\<open>.get\<close>.\<close>

definition select_booking :: "db \<Rightarrow> string \<Rightarrow> booking option" where
  "select_booking d i = find (\<lambda>b. b_id b = i) (ride_bookings d)"

text \<open>
  \<^verbatim>\<open>SELECT * FROM ride_bookings WHERE ride_id = ? AND passenger_id = ? AND booking_status != 'cancelled'\<close>
  with \<^verbatim>\<open>.get\<close>.
\<close>

definition select_active_booking :: "db \<Rightarrow> string \<Rightarrow> string \<Rightarrow> booking option" where
  "select_active_booking d rideId user_id =
     find (\<lambda>b. ride_id b = rideId \<and> passenger_id b = user_id \<and> booking_status b \<noteq> BCancelled)
       (ride_bookings d)"

text \<open>
  \<^verbatim>\<open>SELECT b.* ... FROM ride_bookings b JOIN users u ON b.passenger_id = u.id
  WHERE b.ride_id = ? AND b.booking_status = 'confirmed'\<close> with \<^verbatim>\<open>.all\<close>. The users
  table is not modelled: \<^verbatim>\<open>FOREIGN KEY (passenger_id) REFERENCES users(id)\<close> gives
  every booking its row of users, so the join drops no booking.
\<close>

definition select_confirmed :: "db \<Rightarrow> string \<Rightarrow> booking list" where
  "select_confirmed d rideId =
     filter (\<lambda>b. ride_id b = rideId \<and> booking_status b = BConfirmed) (ride_bookings d)"

text \<open>\<^verbatim>\<open>INSERT INTO ride_bookings\<close>, \<^verbatim>\<open>INSERT INTO ride_messages\<close>, \<^verbatim>\<open>INSERT INTO rides\<close>.\<close>

definition insert_booking :: "booking \<Rightarrow> db \<Rightarrow> db" where
  "insert_booking b d = d\<lparr>ride_bookings := ride_bookings d @ [b]\<rparr>"

definition insert_message :: "ride_message \<Rightarrow> db \<Rightarrow> db" where
  "insert_message m d = d\<lparr>ride_messages := ride_messages d @ [m]\<rparr>"

definition insert_ride :: "ride \<Rightarrow> db \<Rightarrow> db" where
  "insert_ride r d = d\<lparr>rides := rides d @ [r]\<rparr>"

text \<open>
  \<^verbatim>\<open>UPDATE rides SET available_seats = available_seats + ? WHERE id = ?\<close>; the booking
  route runs it with \<open>- ?\<close>, which is \<open>add_available_seats\<close> of the negated number.
\<close>

definition add_available_seats :: "string \<Rightarrow> int \<Rightarrow> db \<Rightarrow> db" where
  "add_available_seats i n d =
     d\<lparr>rides := map (\<lambda>r. if r_id r = i then r\<lparr>available_seats := available_seats r + n\<rparr> else r)
                   (rides d)\<rparr>"

text \<open>\<^verbatim>\<open>UPDATE ride_bookings SET booking_status = ? WHERE id = ?\<close>.\<close>

definition update_booking_status :: "string \<Rightarrow> booking_status \<Rightarrow> db \<Rightarrow> db" where
  "update_booking_status i st d =
     d\<lparr>ride_bookings := map (\<lambda>b. if b_id b = i then b\<lparr>booking_status := st\<rparr> else b)
                           (ride_bookings d)\<rparr>"

text \<open>\<^verbatim>\<open>UPDATE rides SET status = ? WHERE id = ?\<close>.\<close>

definition update_ride_status_row :: "string \<Rightarrow> ride_status \<Rightarrow> db \<Rightarrow> db" where
  "update_ride_status_row i st d =
     d\<lparr>rides := map (\<lambda>r. if r_id r = i then r\<lparr>status := st\<rparr> else r) (rides d)\<rparr>"

section \<open>The SQLite routes\<close>

subsection \<open>Create booking: \<^verbatim>\<open>router.post('/')\<close> of routes/bookings.js\<close>

text \<open>
  \<open>user_id\<close> is \<^verbatim>\<open>req.user.id\<close>, \<open>rideId\<close> and \<open>seats\<close> are the body's
  \<^verbatim>\<open>ride_id\<close> and \<^verbatim>\<open>seats_booked\<close>, \<open>bookingId\<close> is the value of \<^verbatim>\<open>uuidv4()\<close>.
  \<^verbatim>\<open>!ride_id\<close> holds of the empty string and \<^verbatim>\<open>!seats_booked\<close> of 0. The insert
  throws when the primary key is taken, and the handler's \<^verbatim>\<open>catch\<close> answers 500. The
  total price \<^verbatim>\<open>ride.price_per_seat * seats_booked\<close> is a product of doubles. The
  notification is written inside its own \<^verbatim>\<open>try\<close>; the insert of a message is
  taken to succeed.
\<close>

definition create_booking ::
  "db \<Rightarrow> string \<Rightarrow> string \<Rightarrow> int \<Rightarrow> string \<Rightarrow> booking option response \<times> db" where
  "create_booking d user_id rideId seats bookingId =
     (if rideId = [] \<or> seats = 0 then
        (Failure 400 ''ride_id and seats_booked are required'', d)
      else case select_ride d rideId of
        None \<Rightarrow> (Failure 404 ''Ride not found'', d)
      | Some ride \<Rightarrow>
          if driver_id ride = user_id then (Failure 400 ''Cannot book your own ride'', d)
          else if available_seats ride < seats then
            (Failure 400 ''Not enough seats available'', d)
          else (case select_active_booking d rideId user_id of
            Some existingBooking \<Rightarrow>
              (Failure 400 ''You already have a booking for this ride'', d)
          | None \<Rightarrow>
              if bookingId \<in> set (map b_id (ride_bookings d)) then
                (Failure 500 ''Failed to create booking'', d)
              else
                let totalPrice = js_times (price_per_seat ride) seats;
                    d1 = insert_booking
                           \<lparr>b_id = bookingId, ride_id = rideId, passenger_id = user_id,
                            seats_booked = seats, booking_status = BConfirmed,
                            total_price = totalPrice\<rparr> d;
                    d2 = add_available_seats rideId (- seats) d1;
                    booking = select_booking d2 bookingId;
                    d3 = insert_message
                           \<lparr>m_ride_id = rideId, sender_id = user_id,
                            receiver_id = driver_id ride,
                            message = NewBooking seats totalPrice\<rparr> d2
                in (Json 201 booking, d3)))"

subsection \<open>Cancel booking: \<^verbatim>\<open>router.patch('/:id/cancel')\<close> of routes/bookings.js\<close>

text \<open>
  The notification block reads the ride again, after the seats were given back, and
  reports \<^verbatim>\<open>ride.available_seats + booking.seats_booked\<close>. When the ride is gone,
  \<^verbatim>\<open>ride.pickup_time\<close> throws inside the \<^verbatim>\<open>try\<close> and no message is written.
\<close>

definition cancel_booking :: "db \<Rightarrow> string \<Rightarrow> string \<Rightarrow> booking option response \<times> db" where
  "cancel_booking d user_id bookingId =
     (case select_booking d bookingId of
        None \<Rightarrow> (Failure 404 ''Booking not found'', d)
      | Some booking \<Rightarrow>
          if passenger_id booking \<noteq> user_id then (Failure 403 ''Not authorized'', d)
          else if booking_status booking = BCancelled then
            (Failure 400 ''Booking already cancelled'', d)
          else
            let d1 = update_booking_status bookingId BCancelled d;
                d2 = add_available_seats (ride_id booking) (seats_booked booking) d1;
                d3 = (case select_ride d2 (ride_id booking) of
                        None \<Rightarrow> d2
                      | Some ride \<Rightarrow>
                          insert_message
                            \<lparr>m_ride_id = ride_id booking, sender_id = user_id,
                             receiver_id = driver_id ride,
                             message = BookingCancelled (seats_booked booking)
                                         (total_price booking)
                                         (available_seats ride + seats_booked booking)\<rparr> d2)
            in (Json 200 (select_booking d3 bookingId), d3))"

subsection \<open>Create ride: \<^verbatim>\<open>router.post('/')\<close> of routes/rides.js\<close>

text \<open>
  The body of the request. A text field that is absent is the empty string,
  \<^verbatim>\<open>available_seats\<close> may be absent (\<open>None\<close>). The coordinates and the description are
  optional and not modelled.
\<close>

record ride_body =
  body_pickup_address :: string
  body_drop_address :: string
  body_pickup_time :: string
  body_total_seats :: int
  body_available_seats :: "int option"
  body_vehicle_type :: string
  body_price_per_seat :: int

text \<open>\<^verbatim>\<open>available_seats || total_seats\<close>: an absent or zero value gives the right operand.\<close>

definition seats_or_total :: "int option \<Rightarrow> int \<Rightarrow> int" where
  "seats_or_total a t = (case a of None \<Rightarrow> t | Some n \<Rightarrow> if n = 0 then t else n)"

text \<open>
  The insert throws on a taken primary key and on a vehicle type outside
  \<^verbatim>\<open>CHECK (vehicle_type IN ('bike', 'car', 'cab', 'suv'))\<close>; the status column takes its
  default \<^verbatim>\<open>'available'\<close>.
\<close>

definition create_ride :: "db \<Rightarrow> string \<Rightarrow> ride_body \<Rightarrow> string \<Rightarrow> ride option response \<times> db" where
  "create_ride d user_id body rideId =
     (if body_pickup_address body = [] \<or> body_drop_address body = [] \<or> body_pickup_time body = []
         \<or> body_total_seats body = 0 \<or> body_vehicle_type body = [] \<or> body_price_per_seat body = 0
      then (Failure 400 ''Missing required fields'', d)
      else if rideId \<in> set (map r_id (rides d))
              \<or> body_vehicle_type body \<notin> set [''bike'', ''car'', ''cab'', ''suv'']
      then (Failure 500 ''Failed to create ride'', d)
      else
        let d1 = insert_ride
                   \<lparr>r_id = rideId, driver_id = user_id, total_seats = body_total_seats body,
                    available_seats = seats_or_total (body_available_seats body) (body_total_seats body),
                    price_per_seat = body_price_per_seat body, status = Available\<rparr> d
        in (Json 201 (select_ride d1 rideId), d1))"

subsection \<open>Update ride status: \<^verbatim>\<open>router.patch('/:id/status')\<close> of routes/rides.js\<close>

text \<open>\<^verbatim>\<open>if (cancellation_reason)\<close>: an absent or empty reason adds nothing to the text.\<close>

definition reason_text :: "string option \<Rightarrow> string option" where
  "reason_text c = (case c of None \<Rightarrow> None | Some t \<Rightarrow> if t = [] then None else Some t)"

text \<open>
  The loop \<^verbatim>\<open>for (const booking of bookings)\<close>: one message to the passenger, then
  the booking's row is set to cancelled.
\<close>

fun cancel_bookings :: "ride \<Rightarrow> string option \<Rightarrow> booking list \<Rightarrow> db \<Rightarrow> db" where
  "cancel_bookings ride c [] d = d"
| "cancel_bookings ride c (booking # bookings) d =
     cancel_bookings ride c bookings
       (update_booking_status (b_id booking) BCancelled
          (insert_message
             \<lparr>m_ride_id = r_id ride, sender_id = driver_id ride,
              receiver_id = passenger_id booking,
              message = RideCancelled (seats_booked booking) (total_price booking)
                          (reason_text c)\<rparr> d))"

text \<open>
  \<open>new_status\<close> is the body's \<^verbatim>\<open>status\<close>, one of the four values the column's
  \<^verbatim>\<open>CHECK\<close> admits.
\<close>

definition update_ride_status ::
  "db \<Rightarrow> string \<Rightarrow> string \<Rightarrow> ride_status \<Rightarrow> string option \<Rightarrow> ride option response \<times> db" where
  "update_ride_status d user_id rideId new_status cancellation_reason =
     (case select_ride d rideId of
        None \<Rightarrow> (Failure 404 ''Ride not found'', d)
      | Some ride \<Rightarrow>
          if driver_id ride \<noteq> user_id then (Failure 403 ''Not authorized'', d)
          else
            let d1 = (if new_status = Cancelled
                      then cancel_bookings ride cancellation_reason (select_confirmed d rideId) d
                      else d);
                d2 = update_ride_status_row rideId new_status d1
            in (Json 200 (select_ride d2 rideId), d2))"

section \<open>The Supabase routes (api/index.js)\<close>

text \<open>
  The serverless entry point repeats the routes over a Supabase client.
  \<^verbatim>\<open>.single()\<close> gives the row when the query has exactly one and an error with no data
  otherwise; \<^verbatim>\<open>.maybeSingle()\<close> gives no data for no row and an error with no data
  for several, so the data of both is \<open>single_row\<close>.
\<close>

definition single_row :: "'a list \<Rightarrow> 'a option" where
  "single_row xs = (case xs of [x] \<Rightarrow> Some x | _ \<Rightarrow> None)"

definition api_single_ride :: "db \<Rightarrow> string \<Rightarrow> ride option" where
  "api_single_ride d i = single_row (filter (\<lambda>r. r_id r = i) (rides d))"

definition api_single_booking :: "db \<Rightarrow> string \<Rightarrow> booking option" where
  "api_single_booking d i = single_row (filter (\<lambda>b. b_id b = i) (ride_bookings d))"

text \<open>\<^verbatim>\<open>.update({ available_seats: v }).eq('id', i)\<close>: the value is absolute.\<close>

definition set_available_seats :: "string \<Rightarrow> int \<Rightarrow> db \<Rightarrow> db" where
  "set_available_seats i v d =
     d\<lparr>rides := map (\<lambda>r. if r_id r = i then r\<lparr>available_seats := v\<rparr> else r) (rides d)\<rparr>"

subsection \<open>Create booking: \<^verbatim>\<open>app.post('/api/bookings')\<close>\<close>

text \<open>
  The store chooses the id of the inserted row (\<open>bookingId\<close>); an insert that fails
  is thrown and answered with 500. The seats are written as the value read at the start
  minus the seats booked.
\<close>

definition api_create_booking ::
  "db \<Rightarrow> string \<Rightarrow> string \<Rightarrow> int \<Rightarrow> string \<Rightarrow> booking option response \<times> db" where
  "api_create_booking d userId rideId seats bookingId =
     (if rideId = [] \<or> seats = 0 then
        (Failure 400 ''ride_id and seats_booked are required'', d)
      else case api_single_ride d rideId of
        None \<Rightarrow> (Failure 404 ''Ride not found'', d)
      | Some ride \<Rightarrow>
          if driver_id ride = userId then (Failure 400 ''Cannot book your own ride'', d)
          else if available_seats ride < seats then
            (Failure 400 ''Not enough seats available'', d)
          else (case single_row
                 (filter (\<lambda>b. ride_id b = rideId \<and> passenger_id b = userId
                                \<and> booking_status b \<noteq> BCancelled) (ride_bookings d)) of
            Some existingBooking \<Rightarrow>
              (Failure 400 ''You already have a booking for this ride'', d)
          | None \<Rightarrow>
              if bookingId \<in> set (map b_id (ride_bookings d)) then
                (Failure 500 ''Failed to create booking'', d)
              else
                let totalPrice = js_times (price_per_seat ride) seats;
                    booking = \<lparr>b_id = bookingId, ride_id = rideId, passenger_id = userId,
                               seats_booked = seats, booking_status = BConfirmed,
                               total_price = totalPrice\<rparr>;
                    d1 = insert_booking booking d;
                    d2 = set_available_seats rideId (available_seats ride - seats) d1;
                    d3 = insert_message
                           \<lparr>m_ride_id = rideId, sender_id = userId,
                            receiver_id = driver_id ride,
                            message = NewBooking seats totalPrice\<rparr> d2
                in (Json 201 (Some booking), d3)))"

subsection \<open>Cancel booking: \<^verbatim>\<open>app.patch('/api/bookings/:id/cancel')\<close>\<close>

text \<open>
  The booking is read with its ride embedded (\<^verbatim>\<open>select('*, ride:rides(*)')\<close>), here
  the pair of the booking and the ride of its \<^verbatim>\<open>ride_id\<close>. Without a ride,
  \<^verbatim>\<open>booking.ride.available_seats\<close> throws after the booking's row was written, and the
  handler answers 500.
\<close>

definition api_cancel_booking :: "db \<Rightarrow> string \<Rightarrow> string \<Rightarrow> booking option response \<times> db" where
  "api_cancel_booking d userId bookingId =
     (case api_single_booking d bookingId of
        None \<Rightarrow> (Failure 404 ''Booking not found'', d)
      | Some booking \<Rightarrow>
          if passenger_id booking \<noteq> userId then (Failure 403 ''Not authorized'', d)
          else if booking_status booking = BCancelled then
            (Failure 400 ''Booking already cancelled'', d)
          else
            let d1 = update_booking_status bookingId BCancelled d
            in (case select_ride d (ride_id booking) of
                 None \<Rightarrow> (Failure 500 ''Failed to cancel booking'', d1)
               | Some ride \<Rightarrow>
                   let newAvailableSeats = available_seats ride + seats_booked booking;
                       d2 = set_available_seats (ride_id booking) newAvailableSeats d1;
                       d3 = insert_message
                              \<lparr>m_ride_id = ride_id booking, sender_id = userId,
                               receiver_id = driver_id ride,
                               message = BookingCancelled (seats_booked booking)
                                           (total_price booking) newAvailableSeats\<rparr> d2
                   in (Json 200 (api_single_booking d3 bookingId), d3)))"

subsection \<open>Update ride status: \<^verbatim>\<open>app.patch('/api/rides/:id/status')\<close>\<close>

text \<open>
  The same loop as \<open>cancel_bookings\<close>, guarded by \<^verbatim>\<open>bookings.length > 0\<close>. The last
  statement updates the row and reads it back with \<^verbatim>\<open>.single()\<close>; an error there is
  thrown and answered with 500.
\<close>

definition api_update_ride_status ::
  "db \<Rightarrow> string \<Rightarrow> string \<Rightarrow> ride_status \<Rightarrow> string option \<Rightarrow> ride option response \<times> db" where
  "api_update_ride_status d userId rideId new_status cancellation_reason =
     (case api_single_ride d rideId of
        None \<Rightarrow> (Failure 404 ''Ride not found'', d)
      | Some ride \<Rightarrow>
          if driver_id ride \<noteq> userId then (Failure 403 ''Not authorized'', d)
          else
            let bookings = select_confirmed d rideId;
                d1 = (if new_status = Cancelled \<and> length bookings > 0
                      then cancel_bookings ride cancellation_reason bookings d
                      else d);
                d2 = update_ride_status_row rideId new_status d1
            in (case api_single_ride d2 rideId of
                 None \<Rightarrow> (Failure 500 ''Failed to update ride'', d2)
               | Some updated \<Rightarrow> (Json 200 (Some updated), d2)))"

section \<open>Sequences of requests\<close>

text \<open>
  A request to one of the SQLite routes, with the authenticated user first and the
  fresh id chosen by \<^verbatim>\<open>uuidv4()\<close> last. \<open>step\<close> is the store after the request was
  handled.
\<close>

datatype request =
    CreateRide string ride_body string
  | CreateBooking string string int string
  | CancelBooking string string
  | UpdateRideStatus string string ride_status "string option"

fun step :: "db \<Rightarrow> request \<Rightarrow> db" where
  "step d (CreateRide u body i) = snd (create_ride d u body i)"
| "step d (CreateBooking u r n i) = snd (create_booking d u r n i)"
| "step d (CancelBooking u b) = snd (cancel_booking d u b)"
| "step d (UpdateRideStatus u r st c) = snd (update_ride_status d u r st c)"

definition run :: "db \<Rightarrow> request list \<Rightarrow> db" where
  "run d reqs = foldl step d reqs"

definition empty_db :: db where
  "empty_db = \<lparr>rides = [], ride_bookings = [], ride_messages = []\<rparr>"





section \<open>The seat ledger of a store\<close>

text \<open>
  What a sequence of requests is asked to respect, its seat numbers being whole numbers:
  a new ride has a total from 0 to the largest safe integer and, when the body names the
  available seats, a number from 0 to the total; a booking asks for a number of seats that
  is not negative.
\<close>

fun well_formed :: "request \<Rightarrow> bool" where
  "well_formed (CreateRide u body i) =
     (0 \<le> body_total_seats body \<and> body_total_seats body \<le> max_safe_integer \<and>
      (case body_available_seats body of
         None \<Rightarrow> True
       | Some a \<Rightarrow> 0 \<le> a \<and> a \<le> body_total_seats body))"
| "well_formed (CreateBooking u r n i) = (0 \<le> n)"
| "well_formed (CancelBooking u b) = True"
| "well_formed (UpdateRideStatus u r st c) = True"

text \<open>The seats of ride \<open>k\<close> held by bookings that are not cancelled.\<close>

definition seats_held :: "booking list \<Rightarrow> string \<Rightarrow> int" where
  "seats_held bs k =
     sum_list (map seats_booked (filter (\<lambda>b. ride_id b = k \<and> booking_status b \<noteq> BCancelled) bs))"

text \<open>
  The invariant of the ledger: the ids are keys, every booking belongs to a ride of the
  store and holds a number of seats that is not negative, and for every ride the available
  seats are not negative and, together with the seats held, stay within the total.
\<close>

definition ledger_inv :: "db \<Rightarrow> bool" where
  "ledger_inv d \<longleftrightarrow>
     distinct (map r_id (rides d)) \<and> distinct (map b_id (ride_bookings d))
     \<and> (\<forall>b\<in>set (ride_bookings d). 0 \<le> seats_booked b \<and> ride_id b \<in> r_id ` set (rides d))
     \<and> (\<forall>r\<in>set (rides d). 0 \<le> available_seats r
           \<and> available_seats r + seats_held (ride_bookings d) (r_id r) \<le> total_seats r)"

section \<open>Example stores\<close>

text \<open>
  A ride of driver \<open>d1\<close> with four seats, two of them held by the confirmed booking of
  passenger \<open>p1\<close>; the same store with the ride cancelled; the body of a request that
  creates a ride of four seats.
\<close>

definition demo_ride :: ride where
  "demo_ride = \<lparr>r_id = ''r1'', driver_id = ''d1'', total_seats = 4, available_seats = 2,
                 price_per_seat = 100, status = Available\<rparr>"

definition demo_booking :: booking where
  "demo_booking = \<lparr>b_id = ''b1'', ride_id = ''r1'', passenger_id = ''p1'', seats_booked = 2,
                    booking_status = BConfirmed, total_price = 200\<rparr>"

definition demo_db :: db where
  "demo_db = \<lparr>rides = [demo_ride], ride_bookings = [demo_booking], ride_messages = []\<rparr>"

definition cancelled_db :: db where
  "cancelled_db =
     \<lparr>rides = [demo_ride\<lparr>status := Cancelled\<rparr>],
      ride_bookings = [demo_booking\<lparr>booking_status := BCancelled\<rparr>], ride_messages = []\<rparr>"

definition demo_body :: ride_body where
  "demo_body = \<lparr>body_pickup_address = ''A'', body_drop_address = ''B'',
                 body_pickup_time = ''2026-01-01T10:00'', body_total_seats = 4,
                 body_available_seats = None, body_vehicle_type = ''car'',
                 body_price_per_seat = 100\<rparr>"



text \<open>
  A run from the empty store: the driver publishes a ride of four seats at 100 a seat,
  passenger \<open>p1\<close> books two seats, passenger \<open>p2\<close> asks for three, \<open>p1\<close> cancels, the
  driver cancels the ride.
\<close>

definition scenario :: "request list" where
  "scenario =
     [CreateRide ''d1'' demo_body ''r1'',
      CreateBooking ''p1'' ''r1'' 2 ''b1'',
      CreateBooking ''p2'' ''r1'' 3 ''b2'',
      CancelBooking ''p1'' ''b1'',
      UpdateRideStatus ''d1'' ''r1'' Cancelled None]"

section \<open>Auxiliary facts about the statements\<close>

lemma bit_length_le: "n < 2 ^ k \<Longrightarrow> bit_length n \<le> k"
proof (induction k arbitrary: n)
  case 0
  then show ?case by (simp add: bit_length.simps)
next
  case (Suc k)
  show ?case
  proof (cases "n \<le> 0")
    case True
    then show ?thesis by (simp add: bit_length.simps)
  next
    case False
    from Suc.prems have "n div 2 < 2 ^ k" by simp
    then have "bit_length (n div 2) \<le> k" by (rule Suc.IH)
    with False show ?thesis by (subst bit_length.simps) simp
  qed
qed

lemma to_double_safe: "safe_integer x \<Longrightarrow> to_double x = x"
proof -
  assume "safe_integer x"
  then have "\<bar>x\<bar> < 2 ^ 53"
    unfolding safe_integer_def max_safe_integer_def by simp linarith
  then have "bit_length \<bar>x\<bar> - 53 = 0"
    using bit_length_le[of "\<bar>x\<bar>" 53] by simp
  then show ?thesis
    by (simp add: to_double_def Let_def mult_sgn_abs)
qed

lemma js_times_safe: "safe_integer (a * b) \<Longrightarrow> js_times a b = a * b"
  by (simp add: js_times_def to_double_safe)

lemma js_times_small [simp]: "js_times 100 1 = 100" "js_times 100 2 = 200" "js_times 100 (- 1) = - 100"
  by (simp_all add: js_times_safe safe_integer_def max_safe_integer_def)

lemma find_map_keep:
  assumes "\<And>x. P (f x) = P x"
  shows "find P (map f xs) = map_option f (find P xs)"
  using assms by (induction xs) simp_all

lemma find_snoc_fresh:
  "i \<notin> f ` set xs \<Longrightarrow> f y = i \<Longrightarrow> find (\<lambda>x. f x = i) (xs @ [y]) = Some y"
  by (induction xs) auto

lemma find_SomeD: "find P xs = Some x \<Longrightarrow> P x \<and> x \<in> set xs"
  by (induction xs) (auto split: if_splits)

lemma find_None_set: "find P xs = None \<longleftrightarrow> (\<forall>x\<in>set xs. \<not> P x)"
  by (induction xs) simp_all

lemma single_row_find:
  "distinct (map f xs) \<Longrightarrow> single_row (filter (\<lambda>x. f x = i) xs) = find (\<lambda>x. f x = i) xs"
proof (induction xs)
  case Nil
  then show ?case by (simp add: single_row_def)
next
  case (Cons x xs)
  show ?case
  proof (cases "f x = i")
    case True
    with Cons.prems have "\<forall>y\<in>set xs. f y \<noteq> i" by (auto simp: image_iff)
    then have "filter (\<lambda>x. f x = i) xs = []" by (simp add: filter_empty_conv)
    with True show ?thesis by (simp add: single_row_def)
  next
    case False
    with Cons show ?thesis by simp
  qed
qed

lemma distinct_find_unique:
  "distinct (map f xs) \<Longrightarrow> find (\<lambda>x. f x = i) xs = Some y \<Longrightarrow> x \<in> set xs \<Longrightarrow> f x = i \<Longrightarrow> x = y"
  by (induction xs) (auto split: if_splits simp: image_iff)

lemma select_rideD: "select_ride d i = Some r \<Longrightarrow> r_id r = i \<and> r \<in> set (rides d)"
  using find_SomeD[of "\<lambda>r. r_id r = i" "rides d" r] by (simp add: select_ride_def)

lemma select_bookingD: "select_booking d i = Some b \<Longrightarrow> b_id b = i \<and> b \<in> set (ride_bookings d)"
  using find_SomeD[of "\<lambda>b. b_id b = i" "ride_bookings d" b] by (simp add: select_booking_def)

lemma select_ride_add_available_seats:
  "select_ride (add_available_seats i n d) j =
     map_option (\<lambda>r. if r_id r = i then r\<lparr>available_seats := available_seats r + n\<rparr> else r)
       (select_ride d j)"
  unfolding select_ride_def add_available_seats_def
  by (simp add: find_map_keep)

lemma select_ride_update_status_row:
  "select_ride (update_ride_status_row i st d) j =
     map_option (\<lambda>r. if r_id r = i then r\<lparr>status := st\<rparr> else r) (select_ride d j)"
  unfolding select_ride_def update_ride_status_row_def
  by (simp add: find_map_keep)

lemma select_booking_insert_fresh:
  "i \<notin> b_id ` set (ride_bookings d) \<Longrightarrow> b_id b = i \<Longrightarrow>
   select_booking (insert_booking b d) i = Some b"
  unfolding select_booking_def insert_booking_def
  by (simp add: find_snoc_fresh)

lemma select_booking_update_status:
  "select_booking (update_booking_status i st d) j =
     map_option (\<lambda>b. if b_id b = i then b\<lparr>booking_status := st\<rparr> else b) (select_booking d j)"
  unfolding select_booking_def update_booking_status_def
  by (simp add: find_map_keep)

lemma single_row_filter_update:
  assumes "\<And>x. P (f x) = P x"
  shows "single_row (filter P (map f xs)) = map_option f (single_row (filter P xs))"
proof -
  have "filter P (map f xs) = map f (filter P xs)"
    using assms by (induction xs) simp_all
  then show ?thesis
    by (simp add: single_row_def split: list.splits)
qed

lemma api_single_rideD: "api_single_ride d i = Some r \<Longrightarrow> r_id r = i \<and> r \<in> set (rides d)"
proof -
  assume "api_single_ride d i = Some r"
  then have "filter (\<lambda>r. r_id r = i) (rides d) = [r]"
    by (auto simp: api_single_ride_def single_row_def split: list.splits)
  then have "r \<in> set (filter (\<lambda>r. r_id r = i) (rides d))"
    by simp
  then show ?thesis by simp
qed

lemma api_single_ride_update_status_row:
  "api_single_ride (update_ride_status_row i st d) j =
     map_option (\<lambda>r. if r_id r = i then r\<lparr>status := st\<rparr> else r) (api_single_ride d j)"
  unfolding api_single_ride_def update_ride_status_row_def
  by (simp add: single_row_filter_update)

subsection \<open>The loop over the confirmed bookings\<close>

lemma cancel_bookings_rides: "rides (cancel_bookings ride c bs d) = rides d"
  by (induction bs arbitrary: d) (simp_all add: update_booking_status_def insert_message_def)

lemma cancel_bookings_bookings:
  "ride_bookings (cancel_bookings ride c bs d) =
     map (\<lambda>b. if b_id b \<in> b_id ` set bs then b\<lparr>booking_status := BCancelled\<rparr> else b)
       (ride_bookings d)"
proof (induction bs arbitrary: d)
  case Nil
  then show ?case by simp
next
  case (Cons a bs)
  show ?case
    by (simp add: Cons.IH update_booking_status_def insert_message_def)
qed

lemma cancel_bookings_messages:
  "ride_messages (cancel_bookings ride c bs d) =
     ride_messages d @
       map (\<lambda>b. \<lparr>m_ride_id = r_id ride, sender_id = driver_id ride,
                 receiver_id = passenger_id b,
                 message = RideCancelled (seats_booked b) (total_price b) (reason_text c)\<rparr>) bs"
  by (induction bs arbitrary: d) (simp_all add: update_booking_status_def insert_message_def)

lemma select_ride_cancel_bookings:
  "select_ride (cancel_bookings ride c bs d) j = select_ride d j"
  by (simp add: select_ride_def cancel_bookings_rides)

lemma no_confirmed_after_cancel:
  assumes "b \<in> set (map (\<lambda>b. if b_id b \<in> b_id ` set (select_confirmed d rideId)
                              then b\<lparr>booking_status := BCancelled\<rparr> else b) (ride_bookings d))"
    and "ride_id b = rideId"
  shows "booking_status b \<noteq> BConfirmed"
proof
  assume c: "booking_status b = BConfirmed"
  from assms(1) obtain b0 where b0: "b0 \<in> set (ride_bookings d)"
    and b: "b = (if b_id b0 \<in> b_id ` set (select_confirmed d rideId)
                 then b0\<lparr>booking_status := BCancelled\<rparr> else b0)"
    by auto
  from b c have same: "b = b0" and out: "b_id b0 \<notin> b_id ` set (select_confirmed d rideId)"
    by (auto split: if_splits)
  from same b0 c assms(2) have "b0 \<in> set (select_confirmed d rideId)"
    by (simp add: select_confirmed_def)
  with out show False by blast
qed

section \<open>Create booking\<close>


lemma create_booking_accepted:
  assumes "rideId \<noteq> []" and "seats \<noteq> 0"
    and "select_ride d rideId = Some ride"
    and "driver_id ride \<noteq> u"
    and "seats \<le> available_seats ride"
    and "\<forall>b\<in>set (ride_bookings d).
           \<not> (ride_id b = rideId \<and> passenger_id b = u \<and> booking_status b \<noteq> BCancelled)"
    and "i \<notin> b_id ` set (ride_bookings d)"
  shows "fst (create_booking d u rideId seats i) =
           Json 201 (Some \<lparr>b_id = i, ride_id = rideId, passenger_id = u, seats_booked = seats,
                            booking_status = BConfirmed,
                            total_price = js_times (price_per_seat ride) seats\<rparr>)"
    and "ride_bookings (snd (create_booking d u rideId seats i)) =
           ride_bookings d @
             [\<lparr>b_id = i, ride_id = rideId, passenger_id = u, seats_booked = seats,
               booking_status = BConfirmed,
               total_price = js_times (price_per_seat ride) seats\<rparr>]"
    and "rides (snd (create_booking d u rideId seats i)) =
           map (\<lambda>x. if r_id x = rideId then x\<lparr>available_seats := available_seats x - seats\<rparr>
                     else x) (rides d)"
    and "select_ride (snd (create_booking d u rideId seats i)) rideId =
           Some (ride\<lparr>available_seats := available_seats ride - seats\<rparr>)"
    and "ride_messages (snd (create_booking d u rideId seats i)) =
           ride_messages d @
             [\<lparr>m_ride_id = rideId, sender_id = u, receiver_id = driver_id ride,
               message = NewBooking seats (js_times (price_per_seat ride) seats)\<rparr>]"
proof -
  let ?b = "\<lparr>b_id = i, ride_id = rideId, passenger_id = u, seats_booked = seats,
             booking_status = BConfirmed, total_price = js_times (price_per_seat ride) seats\<rparr>"
  let ?m = "\<lparr>m_ride_id = rideId, sender_id = u, receiver_id = driver_id ride,
             message = NewBooking seats (js_times (price_per_seat ride) seats)\<rparr>"
  let ?d2 = "add_available_seats rideId (- seats) (insert_booking ?b d)"
  have none: "select_active_booking d rideId u = None"
    using assms(6) by (simp add: select_active_booking_def find_None_set)
  have fresh: "i \<notin> set (map b_id (ride_bookings d))"
    using assms(7) by simp
  have run: "create_booking d u rideId seats i =
               (Json 201 (select_booking ?d2 i), insert_message ?m ?d2)"
    using assms(1-5) none fresh by (simp add: create_booking_def Let_def)
  have sel: "select_booking ?d2 i = Some ?b"
    using select_booking_insert_fresh[OF assms(7), of ?b]
    by (simp add: select_booking_def add_available_seats_def insert_booking_def)
  show "fst (create_booking d u rideId seats i) = Json 201 (Some ?b)"
    by (simp add: run sel)
  show "ride_bookings (snd (create_booking d u rideId seats i)) = ride_bookings d @ [?b]"
    by (simp add: run insert_message_def add_available_seats_def insert_booking_def)
  show "rides (snd (create_booking d u rideId seats i)) =
           map (\<lambda>x. if r_id x = rideId then x\<lparr>available_seats := available_seats x - seats\<rparr>
                     else x) (rides d)"
    by (simp add: run insert_message_def add_available_seats_def insert_booking_def)
  show "select_ride (snd (create_booking d u rideId seats i)) rideId =
           Some (ride\<lparr>available_seats := available_seats ride - seats\<rparr>)"
    using assms(3) select_rideD[OF assms(3)]
    by (simp add: run select_ride_def insert_message_def add_available_seats_def
          insert_booking_def find_map_keep)
  show "ride_messages (snd (create_booking d u rideId seats i)) = ride_messages d @ [?m]"
    by (simp add: run insert_message_def add_available_seats_def insert_booking_def)
qed

lemma create_booking_refused:
  assumes "rideId = [] \<or> seats = 0 \<or> select_ride d rideId = None
         \<or> (\<exists>ride. select_ride d rideId = Some ride
                \<and> (driver_id ride = u \<or> available_seats ride < seats))
         \<or> (\<exists>b\<in>set (ride_bookings d). ride_id b = rideId \<and> passenger_id b = u
                \<and> booking_status b \<noteq> BCancelled)
         \<or> i \<in> b_id ` set (ride_bookings d)"
  shows "is_failure (fst (create_booking d u rideId seats i))
       \<and> snd (create_booking d u rideId seats i) = d"
proof (cases "select_active_booking d rideId u")
  case None
  then have "\<forall>b\<in>set (ride_bookings d).
      \<not> (ride_id b = rideId \<and> passenger_id b = u \<and> booking_status b \<noteq> BCancelled)"
    by (simp add: select_active_booking_def find_None_set)
  with assms have "rideId = [] \<or> seats = 0 \<or> select_ride d rideId = None
         \<or> (\<exists>ride. select_ride d rideId = Some ride
                \<and> (driver_id ride = u \<or> available_seats ride < seats))
         \<or> i \<in> b_id ` set (ride_bookings d)"
    by blast
  then show ?thesis
    by (auto simp: create_booking_def Let_def None split: option.splits)
next
  case (Some b)
  then show ?thesis
    by (auto simp: create_booking_def Let_def split: option.splits)
qed

lemma api_create_booking_accepted:
  assumes "rideId \<noteq> []" and "seats \<noteq> 0"
    and "api_single_ride d rideId = Some ride"
    and "driver_id ride \<noteq> u"
    and "seats \<le> available_seats ride"
    and "single_row (filter (\<lambda>b. ride_id b = rideId \<and> passenger_id b = u
                                 \<and> booking_status b \<noteq> BCancelled) (ride_bookings d)) = None"
    and "i \<notin> b_id ` set (ride_bookings d)"
  shows "fst (api_create_booking d u rideId seats i) =
           Json 201 (Some \<lparr>b_id = i, ride_id = rideId, passenger_id = u, seats_booked = seats,
                            booking_status = BConfirmed,
                            total_price = js_times (price_per_seat ride) seats\<rparr>)"
    and "ride_bookings (snd (api_create_booking d u rideId seats i)) =
           ride_bookings d @
             [\<lparr>b_id = i, ride_id = rideId, passenger_id = u, seats_booked = seats,
               booking_status = BConfirmed,
               total_price = js_times (price_per_seat ride) seats\<rparr>]"
  using assms
  by (simp_all add: api_create_booking_def Let_def insert_message_def set_available_seats_def
        insert_booking_def)

lemma api_create_booking_refused:
  assumes "rideId = [] \<or> seats = 0 \<or> api_single_ride d rideId = None
         \<or> (\<exists>ride. api_single_ride d rideId = Some ride
                \<and> (driver_id ride = u \<or> available_seats ride < seats))
         \<or> single_row (filter (\<lambda>b. ride_id b = rideId \<and> passenger_id b = u
                                 \<and> booking_status b \<noteq> BCancelled) (ride_bookings d)) \<noteq> None
         \<or> i \<in> b_id ` set (ride_bookings d)"
  shows "is_failure (fst (api_create_booking d u rideId seats i))
       \<and> snd (api_create_booking d u rideId seats i) = d"
  using assms
  by (auto simp: api_create_booking_def Let_def split: option.splits)

text \<open>
  Claim C4. A request that carries a ride id and a number of seats (one without them is
  answered with 400 before anything is read) is checked in this order, and the first
  check that fails decides the answer, whatever the later ones would say: the ride
  exists, else 404 ``Ride not found''; the requester is not the ride's driver, else 400
  ``Cannot book your own ride''; the ride has at least the requested seats, else 400
  ``Not enough seats available''; the passenger has no booking on the ride that is not
  cancelled, else 400 ``You already have a booking for this ride''. Each failure leaves the
  store as it was. The SQLite route and the Supabase route agree; the Supabase route
  finds the ride and the earlier booking with \<^verbatim>\<open>.single()\<close> and
  \<^verbatim>\<open>.maybeSingle()\<close>, which see a row only when it is the only one.
\<close>

theorem create_booking_precondition_order:
  assumes "rideId \<noteq> []" and "seats \<noteq> 0"
  shows "(select_ride d rideId = None \<longrightarrow>
            create_booking d u rideId seats i = (Failure 404 ''Ride not found'', d))
       \<and> (\<forall>ride. select_ride d rideId = Some ride \<and> driver_id ride = u \<longrightarrow>
            create_booking d u rideId seats i = (Failure 400 ''Cannot book your own ride'', d))
       \<and> (\<forall>ride. select_ride d rideId = Some ride \<and> driver_id ride \<noteq> u
                 \<and> available_seats ride < seats \<longrightarrow>
            create_booking d u rideId seats i = (Failure 400 ''Not enough seats available'', d))
       \<and> (\<forall>ride. select_ride d rideId = Some ride \<and> driver_id ride \<noteq> u
                 \<and> seats \<le> available_seats ride
                 \<and> (\<exists>b\<in>set (ride_bookings d). ride_id b = rideId \<and> passenger_id b = u
                        \<and> booking_status b \<noteq> BCancelled) \<longrightarrow>
            create_booking d u rideId seats i =
              (Failure 400 ''You already have a booking for this ride'', d))
       \<and> (api_single_ride d rideId = None \<longrightarrow>
            api_create_booking d u rideId seats i = (Failure 404 ''Ride not found'', d))
       \<and> (\<forall>ride. api_single_ride d rideId = Some ride \<and> driver_id ride = u \<longrightarrow>
            api_create_booking d u rideId seats i = (Failure 400 ''Cannot book your own ride'', d))
       \<and> (\<forall>ride. api_single_ride d rideId = Some ride \<and> driver_id ride \<noteq> u
                 \<and> available_seats ride < seats \<longrightarrow>
            api_create_booking d u rideId seats i = (Failure 400 ''Not enough seats available'', d))
       \<and> (\<forall>ride b. api_single_ride d rideId = Some ride \<and> driver_id ride \<noteq> u
                 \<and> seats \<le> available_seats ride
                 \<and> filter (\<lambda>b. ride_id b = rideId \<and> passenger_id b = u
                        \<and> booking_status b \<noteq> BCancelled) (ride_bookings d) = [b] \<longrightarrow>
            api_create_booking d u rideId seats i =
              (Failure 400 ''You already have a booking for this ride'', d))"
proof -
  have sqlite: "(select_ride d rideId = None \<longrightarrow>
            create_booking d u rideId seats i = (Failure 404 ''Ride not found'', d))
       \<and> (\<forall>ride. select_ride d rideId = Some ride \<and> driver_id ride = u \<longrightarrow>
            create_booking d u rideId seats i = (Failure 400 ''Cannot book your own ride'', d))
       \<and> (\<forall>ride. select_ride d rideId = Some ride \<and> driver_id ride \<noteq> u
                 \<and> available_seats ride < seats \<longrightarrow>
            create_booking d u rideId seats i = (Failure 400 ''Not enough seats available'', d))
       \<and> (\<forall>ride. select_ride d rideId = Some ride \<and> driver_id ride \<noteq> u
                 \<and> seats \<le> available_seats ride
                 \<and> (\<exists>b\<in>set (ride_bookings d). ride_id b = rideId \<and> passenger_id b = u
                        \<and> booking_status b \<noteq> BCancelled) \<longrightarrow>
            create_booking d u rideId seats i =
              (Failure 400 ''You already have a booking for this ride'', d))"
    using assms
    by (auto simp: create_booking_def select_active_booking_def find_None_set
          split: option.splits)
  have api: "(api_single_ride d rideId = None \<longrightarrow>
            api_create_booking d u rideId seats i = (Failure 404 ''Ride not found'', d))
       \<and> (\<forall>ride. api_single_ride d rideId = Some ride \<and> driver_id ride = u \<longrightarrow>
            api_create_booking d u rideId seats i = (Failure 400 ''Cannot book your own ride'', d))
       \<and> (\<forall>ride. api_single_ride d rideId = Some ride \<and> driver_id ride \<noteq> u
                 \<and> available_seats ride < seats \<longrightarrow>
            api_create_booking d u rideId seats i = (Failure 400 ''Not enough seats available'', d))
       \<and> (\<forall>ride b. api_single_ride d rideId = Some ride \<and> driver_id ride \<noteq> u
                 \<and> seats \<le> available_seats ride
                 \<and> filter (\<lambda>b. ride_id b = rideId \<and> passenger_id b = u
                        \<and> booking_status b \<noteq> BCancelled) (ride_bookings d) = [b] \<longrightarrow>
            api_create_booking d u rideId seats i =
              (Failure 400 ''You already have a booking for this ride'', d))"
    using assms
    by (auto simp: api_create_booking_def single_row_def split: option.splits)
  from sqlite api show ?thesis by blast
qed

text \<open>
  On the example store: an unknown ride requested by the driver for five seats; the
  driver's own ride, with too many seats; the passenger who holds a booking, with too many
  seats; the same passenger with one seat.
\<close>

theorem create_booking_precondition_order_witness:
  "create_booking demo_db ''d1'' ''r9'' 5 ''b9'' = (Failure 404 ''Ride not found'', demo_db)
 \<and> create_booking demo_db ''d1'' ''r1'' 5 ''b9'' = (Failure 400 ''Cannot book your own ride'', demo_db)
 \<and> create_booking demo_db ''p1'' ''r1'' 5 ''b9'' = (Failure 400 ''Not enough seats available'', demo_db)
 \<and> create_booking demo_db ''p1'' ''r1'' 1 ''b9'' =
      (Failure 400 ''You already have a booking for this ride'', demo_db)
 \<and> api_create_booking demo_db ''d1'' ''r9'' 5 ''b9'' = (Failure 404 ''Ride not found'', demo_db)
 \<and> api_create_booking demo_db ''d1'' ''r1'' 5 ''b9'' = (Failure 400 ''Cannot book your own ride'', demo_db)
 \<and> api_create_booking demo_db ''p1'' ''r1'' 5 ''b9'' = (Failure 400 ''Not enough seats available'', demo_db)
 \<and> api_create_booking demo_db ''p1'' ''r1'' 1 ''b9'' =
      (Failure 400 ''You already have a booking for this ride'', demo_db)"
  using create_booking_precondition_order[where rideId = "''r9''" and seats = 5 and d = demo_db
          and u = "''d1''" and i = "''b9''"]
        create_booking_precondition_order[where rideId = "''r1''" and seats = 5 and d = demo_db
          and u = "''d1''" and i = "''b9''"]
        create_booking_precondition_order[where rideId = "''r1''" and seats = 5 and d = demo_db
          and u = "''p1''" and i = "''b9''"]
        create_booking_precondition_order[where rideId = "''r1''" and seats = 1 and d = demo_db
          and u = "''p1''" and i = "''b9''"]
  by (simp add: demo_db_def demo_ride_def demo_booking_def select_ride_def api_single_ride_def
        single_row_def)




section \<open>Cancel booking\<close>




section \<open>Update ride status\<close>




text \<open>
  Claim C2. When the driver of an existing ride sets its status to cancelled, every booking
  that the query for the confirmed bookings of the ride returned has its row set to
  cancelled and no other row changes, so that afterwards no booking of the ride is
  confirmed; one message per such booking is appended, from the driver to the booking's
  passenger, with the seats, the refund and the reason; then the ride's row is set to
  cancelled, and the answer is that row. Both routes do so.
\<close>

theorem cancel_ride_cascade:
  "(select_ride d rideId = Some ride \<and> driver_id ride = u \<longrightarrow>
      fst (update_ride_status d u rideId Cancelled c) = Json 200 (Some (ride\<lparr>status := Cancelled\<rparr>))
    \<and> select_ride (snd (update_ride_status d u rideId Cancelled c)) rideId
         = Some (ride\<lparr>status := Cancelled\<rparr>)
    \<and> ride_bookings (snd (update_ride_status d u rideId Cancelled c)) =
         map (\<lambda>b. if b_id b \<in> b_id ` set (select_confirmed d rideId)
                   then b\<lparr>booking_status := BCancelled\<rparr> else b) (ride_bookings d)
    \<and> (\<forall>b\<in>set (ride_bookings (snd (update_ride_status d u rideId Cancelled c))).
          ride_id b = rideId \<longrightarrow> booking_status b \<noteq> BConfirmed)
    \<and> ride_messages (snd (update_ride_status d u rideId Cancelled c)) =
         ride_messages d @
           map (\<lambda>b. \<lparr>m_ride_id = r_id ride, sender_id = driver_id ride,
                     receiver_id = passenger_id b,
                     message = RideCancelled (seats_booked b) (total_price b) (reason_text c)\<rparr>)
             (select_confirmed d rideId))
 \<and> (api_single_ride d rideId = Some ride \<and> driver_id ride = u \<longrightarrow>
      fst (api_update_ride_status d u rideId Cancelled c) = Json 200 (Some (ride\<lparr>status := Cancelled\<rparr>))
    \<and> api_single_ride (snd (api_update_ride_status d u rideId Cancelled c)) rideId
         = Some (ride\<lparr>status := Cancelled\<rparr>)
    \<and> ride_bookings (snd (api_update_ride_status d u rideId Cancelled c)) =
         map (\<lambda>b. if b_id b \<in> b_id ` set (select_confirmed d rideId)
                   then b\<lparr>booking_status := BCancelled\<rparr> else b) (ride_bookings d)
    \<and> (\<forall>b\<in>set (ride_bookings (snd (api_update_ride_status d u rideId Cancelled c))).
          ride_id b = rideId \<longrightarrow> booking_status b \<noteq> BConfirmed)
    \<and> ride_messages (snd (api_update_ride_status d u rideId Cancelled c)) =
         ride_messages d @
           map (\<lambda>b. \<lparr>m_ride_id = r_id ride, sender_id = driver_id ride,
                     receiver_id = passenger_id b,
                     message = RideCancelled (seats_booked b) (total_price b) (reason_text c)\<rparr>)
             (select_confirmed d rideId))"
proof (intro conjI impI; elim conjE)
  assume ride: "select_ride d rideId = Some ride" and own: "driver_id ride = u"
  have id: "r_id ride = rideId"
    using select_rideD[OF ride] by simp
  show "select_ride (snd (update_ride_status d u rideId Cancelled c)) rideId
           = Some (ride\<lparr>status := Cancelled\<rparr>)"
    using ride own id
    by (simp add: update_ride_status_def Let_def select_ride_update_status_row
          select_ride_cancel_bookings)
  then show "fst (update_ride_status d u rideId Cancelled c) = Json 200 (Some (ride\<lparr>status := Cancelled\<rparr>))"
    using ride own by (simp add: update_ride_status_def Let_def)
  show bk: "ride_bookings (snd (update_ride_status d u rideId Cancelled c)) =
           map (\<lambda>b. if b_id b \<in> b_id ` set (select_confirmed d rideId)
                     then b\<lparr>booking_status := BCancelled\<rparr> else b) (ride_bookings d)"
    using ride own
    by (simp add: update_ride_status_def Let_def update_ride_status_row_def
          cancel_bookings_bookings)
  show "\<forall>b\<in>set (ride_bookings (snd (update_ride_status d u rideId Cancelled c))).
          ride_id b = rideId \<longrightarrow> booking_status b \<noteq> BConfirmed"
    unfolding bk using no_confirmed_after_cancel[of _ d rideId] by blast
  show "ride_messages (snd (update_ride_status d u rideId Cancelled c)) =
           ride_messages d @
             map (\<lambda>b. \<lparr>m_ride_id = r_id ride, sender_id = driver_id ride,
                       receiver_id = passenger_id b,
                       message = RideCancelled (seats_booked b) (total_price b) (reason_text c)\<rparr>)
               (select_confirmed d rideId)"
    using ride own
    by (simp add: update_ride_status_def Let_def update_ride_status_row_def
          cancel_bookings_messages)
next
  assume ride: "api_single_ride d rideId = Some ride" and own: "driver_id ride = u"
  have id: "r_id ride = rideId"
    using api_single_rideD[OF ride] by simp
  have r1: "api_single_ride (update_ride_status_row rideId Cancelled
              (cancel_bookings ride c bs d)) rideId = Some (ride\<lparr>status := Cancelled\<rparr>)" for bs
  proof -
    have "api_single_ride (cancel_bookings ride c bs d) rideId = Some ride"
      using ride by (simp add: api_single_ride_def cancel_bookings_rides)
    then show ?thesis
      using id by (simp add: api_single_ride_update_status_row)
  qed
  have r0: "api_single_ride (update_ride_status_row rideId Cancelled d) rideId
              = Some (ride\<lparr>status := Cancelled\<rparr>)"
    using r1[of "[]"] by simp
  show "api_single_ride (snd (api_update_ride_status d u rideId Cancelled c)) rideId
           = Some (ride\<lparr>status := Cancelled\<rparr>)"
    using ride own r0 r1
    by (simp add: api_update_ride_status_def Let_def)
  show "fst (api_update_ride_status d u rideId Cancelled c) = Json 200 (Some (ride\<lparr>status := Cancelled\<rparr>))"
    using ride own r0 r1
    by (simp add: api_update_ride_status_def Let_def)
  show bk: "ride_bookings (snd (api_update_ride_status d u rideId Cancelled c)) =
           map (\<lambda>b. if b_id b \<in> b_id ` set (select_confirmed d rideId)
                     then b\<lparr>booking_status := BCancelled\<rparr> else b) (ride_bookings d)"
    using ride own r0 r1
    by (simp add: api_update_ride_status_def Let_def update_ride_status_row_def
          cancel_bookings_bookings)
  show "\<forall>b\<in>set (ride_bookings (snd (api_update_ride_status d u rideId Cancelled c))).
          ride_id b = rideId \<longrightarrow> booking_status b \<noteq> BConfirmed"
    unfolding bk using no_confirmed_after_cancel[of _ d rideId] by blast
  show "ride_messages (snd (api_update_ride_status d u rideId Cancelled c)) =
           ride_messages d @
             map (\<lambda>b. \<lparr>m_ride_id = r_id ride, sender_id = driver_id ride,
                       receiver_id = passenger_id b,
                       message = RideCancelled (seats_booked b) (total_price b) (reason_text c)\<rparr>)
               (select_confirmed d rideId)"
    using ride own r0 r1
    by (simp add: api_update_ride_status_def Let_def update_ride_status_row_def
          cancel_bookings_messages)
qed

text \<open>
  On the example store the driver cancels the ride and gives a reason: the booking of
  \<open>p1\<close> is cancelled, \<open>p1\<close> gets the message, the ride is cancelled.
\<close>

theorem cancel_ride_cascade_witness:
  "fst (update_ride_status demo_db ''d1'' ''r1'' Cancelled (Some ''strike'')) =
     Json 200 (Some (demo_ride\<lparr>status := Cancelled\<rparr>))
 \<and> select_ride (snd (update_ride_status demo_db ''d1'' ''r1'' Cancelled (Some ''strike''))) ''r1'' =
     Some (demo_ride\<lparr>status := Cancelled\<rparr>)
 \<and> ride_bookings (snd (update_ride_status demo_db ''d1'' ''r1'' Cancelled (Some ''strike''))) =
     [demo_booking\<lparr>booking_status := BCancelled\<rparr>]
 \<and> ride_messages (snd (update_ride_status demo_db ''d1'' ''r1'' Cancelled (Some ''strike''))) =
     [\<lparr>m_ride_id = ''r1'', sender_id = ''d1'', receiver_id = ''p1'',
       message = RideCancelled 2 200 (Some ''strike'')\<rparr>]
 \<and> fst (api_update_ride_status demo_db ''d1'' ''r1'' Cancelled (Some ''strike'')) =
     Json 200 (Some (demo_ride\<lparr>status := Cancelled\<rparr>))
 \<and> ride_bookings (snd (api_update_ride_status demo_db ''d1'' ''r1'' Cancelled (Some ''strike''))) =
     [demo_booking\<lparr>booking_status := BCancelled\<rparr>]
 \<and> ride_messages (snd (api_update_ride_status demo_db ''d1'' ''r1'' Cancelled (Some ''strike''))) =
     [\<lparr>m_ride_id = ''r1'', sender_id = ''d1'', receiver_id = ''p1'',
       message = RideCancelled 2 200 (Some ''strike'')\<rparr>]"
  using cancel_ride_cascade[of demo_db "''r1''" demo_ride "''d1''" "Some ''strike''"]
  by (simp add: demo_db_def demo_ride_def demo_booking_def select_ride_def api_single_ride_def
        single_row_def select_confirmed_def reason_text_def)

section \<open>The status of a ride\<close>

text \<open>
  Claim C3, as stated, fails: the booking routes never read the status of the ride. On
  the store whose ride is cancelled, passenger \<open>p2\<close> books a seat and gets 201.
\<close>

theorem create_booking_on_cancelled_ride:
  "map status (rides cancelled_db) = [Cancelled]
 \<and> fst (create_booking cancelled_db ''p2'' ''r1'' 1 ''b2'') =
     Json 201 (Some \<lparr>b_id = ''b2'', ride_id = ''r1'', passenger_id = ''p2'', seats_booked = 1,
                      booking_status = BConfirmed, total_price = 100\<rparr>)
 \<and> ride_bookings (snd (create_booking cancelled_db ''p2'' ''r1'' 1 ''b2'')) =
     [demo_booking\<lparr>booking_status := BCancelled\<rparr>,
      \<lparr>b_id = ''b2'', ride_id = ''r1'', passenger_id = ''p2'', seats_booked = 1,
        booking_status = BConfirmed, total_price = 100\<rparr>]
 \<and> fst (api_create_booking cancelled_db ''p2'' ''r1'' 1 ''b2'') =
     Json 201 (Some \<lparr>b_id = ''b2'', ride_id = ''r1'', passenger_id = ''p2'', seats_booked = 1,
                      booking_status = BConfirmed, total_price = 100\<rparr>)"
  by (simp add: cancelled_db_def demo_ride_def demo_booking_def create_booking_def
        api_create_booking_def select_ride_def api_single_ride_def single_row_def
        select_active_booking_def select_booking_def insert_booking_def insert_message_def
        add_available_seats_def set_available_seats_def Let_def)

lemma update_ride_status_row_commute:
  "insert_booking b (update_ride_status_row j st d) = update_ride_status_row j st (insert_booking b d)"
  "insert_message m (update_ride_status_row j st d) = update_ride_status_row j st (insert_message m d)"
  "add_available_seats k n (update_ride_status_row j st d) =
     update_ride_status_row j st (add_available_seats k n d)"
  "set_available_seats k n (update_ride_status_row j st d) =
     update_ride_status_row j st (set_available_seats k n d)"
  by (auto simp: insert_booking_def insert_message_def add_available_seats_def
        set_available_seats_def update_ride_status_row_def)

lemma update_ride_status_row_bookings:
  "ride_bookings (update_ride_status_row j st d) = ride_bookings d"
  "select_booking (update_ride_status_row j st d) i = select_booking d i"
  "select_active_booking (update_ride_status_row j st d) rideId u = select_active_booking d rideId u"
  by (simp_all add: update_ride_status_row_def select_booking_def select_active_booking_def)

lemma create_booking_status_commute:
  "create_booking (update_ride_status_row j st d) u rideId seats i =
     (fst (create_booking d u rideId seats i),
      update_ride_status_row j st (snd (create_booking d u rideId seats i)))"
  by (cases "select_ride d rideId")
     (simp_all add: create_booking_def select_ride_update_status_row Let_def
        update_ride_status_row_commute update_ride_status_row_bookings
        split: option.splits)

lemma api_create_booking_status_commute:
  "api_create_booking (update_ride_status_row j st d) u rideId seats i =
     (fst (api_create_booking d u rideId seats i),
      update_ride_status_row j st (snd (api_create_booking d u rideId seats i)))"
  by (cases "api_single_ride d rideId")
     (simp_all add: api_create_booking_def api_single_ride_update_status_row Let_def
        update_ride_status_row_commute update_ride_status_row_bookings
        split: option.splits)

text \<open>
  Claim C3, amended. Creating a booking does not depend on the status of the ride. Take
  any store and set the status of the requested ride to any of the four values. Then, in
  both routes, the request is accepted exactly when its fields are present, the ride exists,
  the requester is not its driver, the seats requested are at most the available seats, the
  passenger has no booking on the ride that is not cancelled (for the Supabase route: the
  query for it does not return exactly one row) and the fresh id is not taken: in that case
  the answer is 201 with the confirmed booking, and that booking is appended to the table
  of bookings; in every other case the answer is a failure and the store is left as it was.
  None of these conditions mentions the status. Moreover, with the status of any ride set
  beforehand, both routes give the answer they give without, and leave the store they leave
  without, with that status set.
\<close>

theorem create_booking_ignores_status:
  "(rideId \<noteq> [] \<and> seats \<noteq> 0 \<and> select_ride d rideId = Some ride \<and> driver_id ride \<noteq> u
      \<and> seats \<le> available_seats ride
      \<and> (\<forall>b\<in>set (ride_bookings d).
            \<not> (ride_id b = rideId \<and> passenger_id b = u \<and> booking_status b \<noteq> BCancelled))
      \<and> i \<notin> b_id ` set (ride_bookings d) \<longrightarrow>
      fst (create_booking (update_ride_status_row rideId st d) u rideId seats i) =
        Json 201 (Some \<lparr>b_id = i, ride_id = rideId, passenger_id = u, seats_booked = seats,
                         booking_status = BConfirmed,
                         total_price = js_times (price_per_seat ride) seats\<rparr>)
    \<and> ride_bookings (snd (create_booking (update_ride_status_row rideId st d) u rideId seats i)) =
        ride_bookings d @
          [\<lparr>b_id = i, ride_id = rideId, passenger_id = u, seats_booked = seats,
            booking_status = BConfirmed,
            total_price = js_times (price_per_seat ride) seats\<rparr>])
 \<and> (rideId = [] \<or> seats = 0 \<or> select_ride d rideId = None
      \<or> (select_ride d rideId = Some ride
           \<and> (driver_id ride = u \<or> available_seats ride < seats))
      \<or> (\<exists>b\<in>set (ride_bookings d). ride_id b = rideId \<and> passenger_id b = u
             \<and> booking_status b \<noteq> BCancelled)
      \<or> i \<in> b_id ` set (ride_bookings d) \<longrightarrow>
      is_failure (fst (create_booking (update_ride_status_row rideId st d) u rideId seats i))
    \<and> snd (create_booking (update_ride_status_row rideId st d) u rideId seats i) =
        update_ride_status_row rideId st d)
 \<and> (rideId \<noteq> [] \<and> seats \<noteq> 0 \<and> api_single_ride d rideId = Some ride \<and> driver_id ride \<noteq> u
      \<and> seats \<le> available_seats ride
      \<and> single_row (filter (\<lambda>b. ride_id b = rideId \<and> passenger_id b = u
                                  \<and> booking_status b \<noteq> BCancelled) (ride_bookings d)) = None
      \<and> i \<notin> b_id ` set (ride_bookings d) \<longrightarrow>
      fst (api_create_booking (update_ride_status_row rideId st d) u rideId seats i) =
        Json 201 (Some \<lparr>b_id = i, ride_id = rideId, passenger_id = u, seats_booked = seats,
                         booking_status = BConfirmed,
                         total_price = js_times (price_per_seat ride) seats\<rparr>)
    \<and> ride_bookings (snd (api_create_booking (update_ride_status_row rideId st d) u rideId seats i)) =
        ride_bookings d @
          [\<lparr>b_id = i, ride_id = rideId, passenger_id = u, seats_booked = seats,
            booking_status = BConfirmed,
            total_price = js_times (price_per_seat ride) seats\<rparr>])
 \<and> (rideId = [] \<or> seats = 0 \<or> api_single_ride d rideId = None
      \<or> (api_single_ride d rideId = Some ride
           \<and> (driver_id ride = u \<or> available_seats ride < seats))
      \<or> single_row (filter (\<lambda>b. ride_id b = rideId \<and> passenger_id b = u
                                  \<and> booking_status b \<noteq> BCancelled) (ride_bookings d)) \<noteq> None
      \<or> i \<in> b_id ` set (ride_bookings d) \<longrightarrow>
      is_failure (fst (api_create_booking (update_ride_status_row rideId st d) u rideId seats i))
    \<and> snd (api_create_booking (update_ride_status_row rideId st d) u rideId seats i) =
        update_ride_status_row rideId st d)
 \<and> create_booking (update_ride_status_row j st d) u rideId seats i =
     (fst (create_booking d u rideId seats i),
      update_ride_status_row j st (snd (create_booking d u rideId seats i)))
 \<and> api_create_booking (update_ride_status_row j st d) u rideId seats i =
     (fst (api_create_booking d u rideId seats i),
      update_ride_status_row j st (snd (api_create_booking d u rideId seats i)))"
proof (intro conjI impI)
  let ?d = "update_ride_status_row rideId st d"
  note c = create_booking_status_commute[of rideId st d u rideId seats i]
  note ca = api_create_booking_status_commute[of rideId st d u rideId seats i]
  {
    assume a: "rideId \<noteq> [] \<and> seats \<noteq> 0 \<and> select_ride d rideId = Some ride \<and> driver_id ride \<noteq> u
      \<and> seats \<le> available_seats ride
      \<and> (\<forall>b\<in>set (ride_bookings d).
            \<not> (ride_id b = rideId \<and> passenger_id b = u \<and> booking_status b \<noteq> BCancelled))
      \<and> i \<notin> b_id ` set (ride_bookings d)"
    then have acc: "fst (create_booking d u rideId seats i) =
        Json 201 (Some \<lparr>b_id = i, ride_id = rideId, passenger_id = u, seats_booked = seats,
                         booking_status = BConfirmed,
                         total_price = js_times (price_per_seat ride) seats\<rparr>)"
      "ride_bookings (snd (create_booking d u rideId seats i)) =
        ride_bookings d @
          [\<lparr>b_id = i, ride_id = rideId, passenger_id = u, seats_booked = seats,
            booking_status = BConfirmed,
            total_price = js_times (price_per_seat ride) seats\<rparr>]"
      using create_booking_accepted(1,2)[of rideId seats d ride u i] by blast+
    show "fst (create_booking ?d u rideId seats i) =
        Json 201 (Some \<lparr>b_id = i, ride_id = rideId, passenger_id = u, seats_booked = seats,
                         booking_status = BConfirmed,
                         total_price = js_times (price_per_seat ride) seats\<rparr>)"
      using acc(1) by (simp add: c)
    show "ride_bookings (snd (create_booking ?d u rideId seats i)) =
        ride_bookings d @
          [\<lparr>b_id = i, ride_id = rideId, passenger_id = u, seats_booked = seats,
            booking_status = BConfirmed,
            total_price = js_times (price_per_seat ride) seats\<rparr>]"
      using acc(2) by (simp add: c update_ride_status_row_bookings)
  }
  {
    assume "rideId = [] \<or> seats = 0 \<or> select_ride d rideId = None
      \<or> (select_ride d rideId = Some ride
           \<and> (driver_id ride = u \<or> available_seats ride < seats))
      \<or> (\<exists>b\<in>set (ride_bookings d). ride_id b = rideId \<and> passenger_id b = u
             \<and> booking_status b \<noteq> BCancelled)
      \<or> i \<in> b_id ` set (ride_bookings d)"
    then have "is_failure (fst (create_booking d u rideId seats i))
       \<and> snd (create_booking d u rideId seats i) = d"
      by (intro create_booking_refused) blast
    then show "is_failure (fst (create_booking ?d u rideId seats i))"
      and "snd (create_booking ?d u rideId seats i) = ?d"
      by (simp_all add: c)
  }
  {
    assume a: "rideId \<noteq> [] \<and> seats \<noteq> 0 \<and> api_single_ride d rideId = Some ride \<and> driver_id ride \<noteq> u
      \<and> seats \<le> available_seats ride
      \<and> single_row (filter (\<lambda>b. ride_id b = rideId \<and> passenger_id b = u
                                  \<and> booking_status b \<noteq> BCancelled) (ride_bookings d)) = None
      \<and> i \<notin> b_id ` set (ride_bookings d)"
    then have acc: "fst (api_create_booking d u rideId seats i) =
        Json 201 (Some \<lparr>b_id = i, ride_id = rideId, passenger_id = u, seats_booked = seats,
                         booking_status = BConfirmed,
                         total_price = js_times (price_per_seat ride) seats\<rparr>)"
      "ride_bookings (snd (api_create_booking d u rideId seats i)) =
        ride_bookings d @
          [\<lparr>b_id = i, ride_id = rideId, passenger_id = u, seats_booked = seats,
            booking_status = BConfirmed,
            total_price = js_times (price_per_seat ride) seats\<rparr>]"
      using api_create_booking_accepted[of rideId seats d ride u i] by blast+
    show "fst (api_create_booking ?d u rideId seats i) =
        Json 201 (Some \<lparr>b_id = i, ride_id = rideId, passenger_id = u, seats_booked = seats,
                         booking_status = BConfirmed,
                         total_price = js_times (price_per_seat ride) seats\<rparr>)"
      using acc(1) by (simp add: ca)
    show "ride_bookings (snd (api_create_booking ?d u rideId seats i)) =
        ride_bookings d @
          [\<lparr>b_id = i, ride_id = rideId, passenger_id = u, seats_booked = seats,
            booking_status = BConfirmed,
            total_price = js_times (price_per_seat ride) seats\<rparr>]"
      using acc(2) by (simp add: ca update_ride_status_row_bookings)
  }
  {
    assume "rideId = [] \<or> seats = 0 \<or> api_single_ride d rideId = None
      \<or> (api_single_ride d rideId = Some ride
           \<and> (driver_id ride = u \<or> available_seats ride < seats))
      \<or> single_row (filter (\<lambda>b. ride_id b = rideId \<and> passenger_id b = u
                                  \<and> booking_status b \<noteq> BCancelled) (ride_bookings d)) \<noteq> None
      \<or> i \<in> b_id ` set (ride_bookings d)"
    then have "is_failure (fst (api_create_booking d u rideId seats i))
       \<and> snd (api_create_booking d u rideId seats i) = d"
      by (intro api_create_booking_refused) blast
    then show "is_failure (fst (api_create_booking ?d u rideId seats i))"
      and "snd (api_create_booking ?d u rideId seats i) = ?d"
      by (simp_all add: ca)
  }
  show "create_booking (update_ride_status_row j st d) u rideId seats i =
     (fst (create_booking d u rideId seats i),
      update_ride_status_row j st (snd (create_booking d u rideId seats i)))"
    by (rule create_booking_status_commute)
  show "api_create_booking (update_ride_status_row j st d) u rideId seats i =
     (fst (api_create_booking d u rideId seats i),
      update_ride_status_row j st (snd (api_create_booking d u rideId seats i)))"
    by (rule api_create_booking_status_commute)
qed

text \<open>
  The example store with its ride set to cancelled: passenger \<open>p2\<close> asks for the two
  seats that are left and gets them; passenger \<open>p1\<close>, who holds a booking, is refused.
\<close>

theorem create_booking_ignores_status_witness:
  "map status (rides (update_ride_status_row ''r1'' Cancelled demo_db)) = [Cancelled]
 \<and> fst (create_booking (update_ride_status_row ''r1'' Cancelled demo_db) ''p2'' ''r1'' 2 ''b2'') =
     Json 201 (Some \<lparr>b_id = ''b2'', ride_id = ''r1'', passenger_id = ''p2'', seats_booked = 2,
                      booking_status = BConfirmed, total_price = 200\<rparr>)
 \<and> ride_bookings
      (snd (create_booking (update_ride_status_row ''r1'' Cancelled demo_db) ''p2'' ''r1'' 2 ''b2'')) =
     [demo_booking,
      \<lparr>b_id = ''b2'', ride_id = ''r1'', passenger_id = ''p2'', seats_booked = 2,
        booking_status = BConfirmed, total_price = 200\<rparr>]
 \<and> fst (api_create_booking (update_ride_status_row ''r1'' Cancelled demo_db) ''p2'' ''r1'' 2 ''b2'') =
     Json 201 (Some \<lparr>b_id = ''b2'', ride_id = ''r1'', passenger_id = ''p2'', seats_booked = 2,
                      booking_status = BConfirmed, total_price = 200\<rparr>)
 \<and> is_failure (fst (create_booking (update_ride_status_row ''r1'' Cancelled demo_db) ''p1'' ''r1'' 1 ''b2''))
 \<and> snd (create_booking (update_ride_status_row ''r1'' Cancelled demo_db) ''p1'' ''r1'' 1 ''b2'') =
     update_ride_status_row ''r1'' Cancelled demo_db
 \<and> is_failure (fst (api_create_booking (update_ride_status_row ''r1'' Cancelled demo_db) ''p1'' ''r1'' 1 ''b2''))"
proof -
  have st: "map status (rides (update_ride_status_row ''r1'' Cancelled demo_db)) = [Cancelled]"
    by (simp add: update_ride_status_row_def demo_db_def demo_ride_def)
  from st
    create_booking_ignores_status[where rideId = "''r1''" and seats = 2 and d = demo_db
      and ride = demo_ride and u = "''p2''" and i = "''b2''" and st = Cancelled and j = "''r1''",
      THEN conjunct1]
    create_booking_ignores_status[where rideId = "''r1''" and seats = 2 and d = demo_db
      and ride = demo_ride and u = "''p2''" and i = "''b2''" and st = Cancelled and j = "''r1''",
      THEN conjunct2, THEN conjunct2, THEN conjunct1]
    create_booking_ignores_status[where rideId = "''r1''" and seats = 1 and d = demo_db
      and ride = demo_ride and u = "''p1''" and i = "''b2''" and st = Cancelled and j = "''r1''",
      THEN conjunct2, THEN conjunct1]
    create_booking_ignores_status[where rideId = "''r1''" and seats = 1 and d = demo_db
      and ride = demo_ride and u = "''p1''" and i = "''b2''" and st = Cancelled and j = "''r1''",
      THEN conjunct2, THEN conjunct2, THEN conjunct2, THEN conjunct1]
  show ?thesis
    by (simp add: demo_db_def demo_ride_def demo_booking_def select_ride_def api_single_ride_def
          single_row_def)
qed

text \<open>
  Claim C8, as stated, fails: the status routes write whatever status the driver sends and
  do not look at the current one. On the store whose ride is cancelled the driver sends
  \<open>available\<close>, and the ride is available again.
\<close>

theorem cancelled_ride_reopened:
  "map status (rides cancelled_db) = [Cancelled]
 \<and> map status (rides (snd (update_ride_status cancelled_db ''d1'' ''r1'' Available None))) =
     [Available]
 \<and> map status (rides (snd (api_update_ride_status cancelled_db ''d1'' ''r1'' Available None))) =
     [Available]"
  by (simp add: cancelled_db_def demo_ride_def demo_booking_def update_ride_status_def
        api_update_ride_status_def select_ride_def api_single_ride_def single_row_def
        update_ride_status_row_def select_confirmed_def Let_def)

text \<open>
  Claim C8, amended. A status update sent by the driver of an existing ride sets the ride's
  status to the value sent, whatever the status was, the cancelled one included; one sent
  for a ride that does not exist or by somebody else changes nothing. Creating and
  cancelling a booking leave the status of every ride as it was.
\<close>

theorem ride_status_changes:
  "(select_ride d rideId = Some ride \<and> driver_id ride = u \<longrightarrow>
      select_ride (snd (update_ride_status d u rideId st c)) rideId = Some (ride\<lparr>status := st\<rparr>))
 \<and> (api_single_ride d rideId = Some ride \<and> driver_id ride = u \<longrightarrow>
      api_single_ride (snd (api_update_ride_status d u rideId st c)) rideId
        = Some (ride\<lparr>status := st\<rparr>))
 \<and> (select_ride d rideId = None \<or> (select_ride d rideId = Some ride \<and> driver_id ride \<noteq> u) \<longrightarrow>
      snd (update_ride_status d u rideId st c) = d)
 \<and> (api_single_ride d rideId = None
      \<or> (api_single_ride d rideId = Some ride \<and> driver_id ride \<noteq> u) \<longrightarrow>
      snd (api_update_ride_status d u rideId st c) = d)
 \<and> map status (rides (snd (create_booking d p rideId seats i))) = map status (rides d)
 \<and> map status (rides (snd (cancel_booking d p i))) = map status (rides d)
 \<and> map status (rides (snd (api_create_booking d p rideId seats i))) = map status (rides d)
 \<and> map status (rides (snd (api_cancel_booking d p i))) = map status (rides d)"
proof (intro conjI impI)
  assume a: "select_ride d rideId = Some ride \<and> driver_id ride = u"
  then have id: "r_id ride = rideId"
    using select_rideD[of d rideId ride] by simp
  show "select_ride (snd (update_ride_status d u rideId st c)) rideId = Some (ride\<lparr>status := st\<rparr>)"
    using a id
    by (simp add: update_ride_status_def Let_def select_ride_update_status_row
          select_ride_cancel_bookings)
next
  assume a: "api_single_ride d rideId = Some ride \<and> driver_id ride = u"
  then have id: "r_id ride = rideId"
    using api_single_rideD[of d rideId ride] by simp
  have r1: "api_single_ride (update_ride_status_row rideId st
              (cancel_bookings ride c bs d)) rideId = Some (ride\<lparr>status := st\<rparr>)" for bs
  proof -
    have "api_single_ride (cancel_bookings ride c bs d) rideId = Some ride"
      using a by (simp add: api_single_ride_def cancel_bookings_rides)
    then show ?thesis
      using id by (simp add: api_single_ride_update_status_row)
  qed
  have r0: "api_single_ride (update_ride_status_row rideId st d) rideId
              = Some (ride\<lparr>status := st\<rparr>)"
    using r1[of "[]"] by simp
  show "api_single_ride (snd (api_update_ride_status d u rideId st c)) rideId
          = Some (ride\<lparr>status := st\<rparr>)"
    using a r0 r1 by (auto simp: api_update_ride_status_def Let_def)
next
  assume "select_ride d rideId = None \<or> (select_ride d rideId = Some ride \<and> driver_id ride \<noteq> u)"
  then show "snd (update_ride_status d u rideId st c) = d"
    by (auto simp: update_ride_status_def)
next
  assume "api_single_ride d rideId = None
      \<or> (api_single_ride d rideId = Some ride \<and> driver_id ride \<noteq> u)"
  then show "snd (api_update_ride_status d u rideId st c) = d"
    by (auto simp: api_update_ride_status_def)
next
  show "map status (rides (snd (create_booking d p rideId seats i))) = map status (rides d)"
    by (simp add: create_booking_def Let_def insert_booking_def insert_message_def
          add_available_seats_def comp_def if_distrib[of status] cong: if_cong
          split: option.splits)
next
  show "map status (rides (snd (cancel_booking d p i))) = map status (rides d)"
    by (simp add: cancel_booking_def Let_def update_booking_status_def insert_message_def
          add_available_seats_def comp_def if_distrib[of status] cong: if_cong
          split: option.splits)
next
  show "map status (rides (snd (api_create_booking d p rideId seats i))) = map status (rides d)"
    by (simp add: api_create_booking_def Let_def insert_booking_def insert_message_def
          set_available_seats_def comp_def if_distrib[of status] cong: if_cong
          split: option.splits)
next
  show "map status (rides (snd (api_cancel_booking d p i))) = map status (rides d)"
    by (simp add: api_cancel_booking_def Let_def update_booking_status_def insert_message_def
          set_available_seats_def comp_def if_distrib[of status] cong: if_cong
          split: option.splits)
qed

text \<open>
  On the store whose ride is cancelled: the driver sends \<open>active\<close>; somebody else sends
  it; a passenger books a seat.
\<close>

theorem ride_status_changes_witness:
  "select_ride (snd (update_ride_status cancelled_db ''d1'' ''r1'' Active None)) ''r1'' =
     Some (demo_ride\<lparr>status := Active\<rparr>)
 \<and> api_single_ride (snd (api_update_ride_status cancelled_db ''d1'' ''r1'' Active None)) ''r1'' =
     Some (demo_ride\<lparr>status := Active\<rparr>)
 \<and> snd (update_ride_status cancelled_db ''p1'' ''r1'' Active None) = cancelled_db
 \<and> snd (api_update_ride_status cancelled_db ''p1'' ''r1'' Active None) = cancelled_db
 \<and> map status (rides (snd (create_booking cancelled_db ''p2'' ''r1'' 1 ''b2''))) = [Cancelled]"
  using ride_status_changes[of cancelled_db "''r1''" "demo_ride\<lparr>status := Cancelled\<rparr>" "''d1''"
          Active None "''p2''" 1 "''b2''"]
        ride_status_changes[of cancelled_db "''r1''" "demo_ride\<lparr>status := Cancelled\<rparr>" "''p1''"
          Active None "''p2''" 1 "''b2''"]
  by (simp add: cancelled_db_def demo_ride_def demo_booking_def select_ride_def
        api_single_ride_def single_row_def)

section \<open>The two routes that cancel a booking\<close>

lemma add_available_seats_absolute:
  assumes "distinct (map r_id (rides d))" and "select_ride d k = Some r"
    and "rides d' = rides d"
  shows "rides (add_available_seats k n d') = rides (set_available_seats k (available_seats r + n) d')"
proof -
  have "x = r" if "x \<in> set (rides d)" "r_id x = k" for x
    using distinct_find_unique[OF assms(1), of k r x] assms(2) that
    by (simp add: select_ride_def)
  then show ?thesis
    by (auto simp: add_available_seats_def set_available_seats_def assms(3))
qed

lemma add_available_seats_no_ride:
  assumes "select_ride d k = None" and "rides d' = rides d"
  shows "rides (add_available_seats k n d') = rides d"
proof -
  have "\<forall>x\<in>set (rides d). r_id x \<noteq> k"
    using assms(1) by (simp add: select_ride_def find_None_set)
  then show ?thesis
    by (simp add: add_available_seats_def assms(2) map_idI)
qed

text \<open>
  Claim C10. On a store whose ids are primary keys (no two bookings and no two rides
  share an id), the SQLite route, which adds the seats to the stored value, and the
  Supabase route, which writes the value it read plus the seats, leave the same table of
  bookings and the same table of rides, for every requester and every booking id; they
  give the same answer too whenever the booking's ride exists or the request is refused.
  (They differ in the message to the driver: the SQLite route reads the ride again after
  the update and reports the new seat count plus the seats once more.)
\<close>

theorem cancel_booking_routes_agree:
  assumes "distinct (map b_id (ride_bookings d))" and "distinct (map r_id (rides d))"
  shows "ride_bookings (snd (cancel_booking d u i)) = ride_bookings (snd (api_cancel_booking d u i))
       \<and> rides (snd (cancel_booking d u i)) = rides (snd (api_cancel_booking d u i))
       \<and> ((\<forall>b. select_booking d i = Some b \<and> passenger_id b = u \<and> booking_status b \<noteq> BCancelled
               \<longrightarrow> select_ride d (ride_id b) \<noteq> None) \<longrightarrow>
            fst (cancel_booking d u i) = fst (api_cancel_booking d u i))"
proof -
  have same: "api_single_booking d' i = select_booking d' i"
    if "map b_id (ride_bookings d') = map b_id (ride_bookings d)" for d'
    using single_row_find[of b_id "ride_bookings d'" i] assms(1) that
    by (simp add: api_single_booking_def select_booking_def)
  have same0: "api_single_booking d i = select_booking d i"
    using same[of d] by simp
  show ?thesis
  proof (cases "select_booking d i")
    case None
    then show ?thesis
      by (simp add: cancel_booking_def api_cancel_booking_def same0)
  next
    case (Some b)
    show ?thesis
    proof (cases "passenger_id b \<noteq> u \<or> booking_status b = BCancelled")
      case True
      with Some show ?thesis
        by (auto simp: cancel_booking_def api_cancel_booking_def same0)
    next
      case False
      let ?d1 = "update_booking_status i BCancelled d"
      have r1: "rides ?d1 = rides d"
        by (simp add: update_booking_status_def)
      have sr1: "select_ride ?d1 k = select_ride d k" for k
        by (simp add: select_ride_def r1)
      show ?thesis
      proof (cases "select_ride d (ride_id b)")
        case None
        have "rides (add_available_seats (ride_id b) (seats_booked b) ?d1) = rides d"
          using add_available_seats_no_ride[OF None r1] .
        moreover have "select_ride (add_available_seats (ride_id b) (seats_booked b) ?d1) (ride_id b) = None"
          using None by (simp add: select_ride_add_available_seats sr1)
        moreover have "ride_bookings (add_available_seats (ride_id b) (seats_booked b) ?d1)
                         = ride_bookings ?d1"
          by (simp add: add_available_seats_def)
        ultimately show ?thesis
          using Some False None
          by (simp add: cancel_booking_def api_cancel_booking_def same0 Let_def r1)
      next
        case (Some r)
        note ride = Some
        let ?d2 = "add_available_seats (ride_id b) (seats_booked b) ?d1"
        let ?d2' = "set_available_seats (ride_id b) (available_seats r + seats_booked b) ?d1"
        have rd: "rides ?d2 = rides ?d2'"
          using add_available_seats_absolute[OF assms(2) ride r1] .
        have bk: "ride_bookings ?d2 = ride_bookings ?d1" "ride_bookings ?d2' = ride_bookings ?d1"
          by (simp_all add: add_available_seats_def set_available_seats_def)
        have found: "select_ride ?d2 (ride_id b) \<noteq> None"
          using ride by (simp add: select_ride_add_available_seats sr1)
        then obtain r' where r': "select_ride ?d2 (ride_id b) = Some r'" by blast
        have ids: "map b_id (ride_bookings (insert_message m ?d2')) = map b_id (ride_bookings d)" for m
          by (simp add: insert_message_def set_available_seats_def update_booking_status_def
                comp_def if_distrib[of b_id] cong: if_cong)
        have sel: "select_booking (insert_message m ?d2) i = select_booking (insert_message m' ?d2') i"
          for m m'
          by (simp add: select_booking_def insert_message_def bk)
        show ?thesis
          using \<open>select_booking d i = Some b\<close> False ride r'
          by (simp add: cancel_booking_def api_cancel_booking_def same0 Let_def rd bk
                insert_message_def same[OF ids, unfolded insert_message_def] 
                sel[unfolded insert_message_def])
      qed
    qed
  qed
qed

text \<open>On the example store passenger \<open>p1\<close> cancels the booking through either route.\<close>

theorem cancel_booking_routes_agree_witness:
  "ride_bookings (snd (cancel_booking demo_db ''p1'' ''b1'')) =
     ride_bookings (snd (api_cancel_booking demo_db ''p1'' ''b1''))
 \<and> rides (snd (cancel_booking demo_db ''p1'' ''b1'')) =
     rides (snd (api_cancel_booking demo_db ''p1'' ''b1''))
 \<and> fst (cancel_booking demo_db ''p1'' ''b1'') = fst (api_cancel_booking demo_db ''p1'' ''b1'')
 \<and> rides (snd (api_cancel_booking demo_db ''p1'' ''b1'')) = [demo_ride\<lparr>available_seats := 4\<rparr>]
 \<and> ride_bookings (snd (api_cancel_booking demo_db ''p1'' ''b1'')) =
     [demo_booking\<lparr>booking_status := BCancelled\<rparr>]"
proof -
  have api: "rides (snd (api_cancel_booking demo_db ''p1'' ''b1'')) = [demo_ride\<lparr>available_seats := 4\<rparr>]
     \<and> ride_bookings (snd (api_cancel_booking demo_db ''p1'' ''b1'')) =
         [demo_booking\<lparr>booking_status := BCancelled\<rparr>]"
    by (simp add: api_cancel_booking_def demo_db_def demo_ride_def demo_booking_def
          api_single_booking_def single_row_def select_ride_def update_booking_status_def
          set_available_seats_def insert_message_def Let_def)
  have keys: "distinct (map b_id (ride_bookings demo_db))" "distinct (map r_id (rides demo_db))"
    by (simp_all add: demo_db_def)
  have ride: "\<forall>b. select_booking demo_db ''b1'' = Some b \<and> passenger_id b = ''p1''
                 \<and> booking_status b \<noteq> BCancelled \<longrightarrow> select_ride demo_db (ride_id b) \<noteq> None"
    by (simp add: demo_db_def demo_ride_def demo_booking_def select_booking_def select_ride_def)
  from cancel_booking_routes_agree[OF keys, of "''p1''" "''b1''"] ride api
  show ?thesis by blast
qed

section \<open>Seats within bounds\<close>

lemma seats_held_nonneg:
  "\<forall>b\<in>set bs. 0 \<le> seats_booked b \<Longrightarrow> 0 \<le> seats_held bs k"
  by (induction bs) (simp_all add: seats_held_def)

lemma seats_held_snoc:
  "seats_held (bs @ [b]) k =
     seats_held bs k + (if ride_id b = k \<and> booking_status b \<noteq> BCancelled then seats_booked b else 0)"
  by (simp add: seats_held_def)

lemma seats_held_no_booking:
  "k \<notin> ride_id ` set bs \<Longrightarrow> seats_held bs k = 0"
  by (induction bs) (auto simp: seats_held_def)

lemma seats_held_cancel_le:
  "\<forall>b\<in>set bs. 0 \<le> seats_booked b \<Longrightarrow>
   seats_held (map (\<lambda>b. if C b then b\<lparr>booking_status := BCancelled\<rparr> else b) bs) k \<le> seats_held bs k"
  by (induction bs) (auto simp: seats_held_def)

lemma seats_held_cancel_one:
  assumes "distinct (map b_id bs)" and "find (\<lambda>x. b_id x = i) bs = Some b"
    and "booking_status b \<noteq> BCancelled"
  shows "seats_held (map (\<lambda>x. if b_id x = i then x\<lparr>booking_status := BCancelled\<rparr> else x) bs) k =
           seats_held bs k - (if ride_id b = k then seats_booked b else 0)"
  using assms
proof (induction bs)
  case Nil
  then show ?case by simp
next
  case (Cons x xs)
  show ?case
  proof (cases "b_id x = i")
    case True
    with Cons.prems have xb: "x = b" and "\<forall>y\<in>set xs. b_id y \<noteq> i"
      by (auto simp: image_iff)
    then have "map (\<lambda>x. if b_id x = i then x\<lparr>booking_status := BCancelled\<rparr> else x) xs = xs"
      by (simp add: map_idI)
    with True xb Cons.prems(3) show ?thesis
      by (simp add: seats_held_def)
  next
    case False
    with Cons show ?thesis
      by (simp add: seats_held_def)
  qed
qed

lemma ledger_inv_create_ride:
  assumes "ledger_inv d" and "well_formed (CreateRide u body i)"
  shows "ledger_inv (snd (create_ride d u body i))"
proof (cases "snd (create_ride d u body i) = d")
  case True
  with assms(1) show ?thesis by simp
next
  case False
  let ?r = "\<lparr>r_id = i, driver_id = u, total_seats = body_total_seats body,
             available_seats = seats_or_total (body_available_seats body) (body_total_seats body),
             price_per_seat = body_price_per_seat body, status = Available\<rparr>"
  from False have new: "snd (create_ride d u body i) = insert_ride ?r d"
    and fresh: "i \<notin> r_id ` set (rides d)"
    by (auto simp: create_ride_def Let_def split: if_splits)
  have range: "0 \<le> available_seats ?r \<and> available_seats ?r \<le> total_seats ?r"
    using assms(2) by (auto simp: seats_or_total_def split: option.splits)
  have none: "seats_held (ride_bookings d) i = 0"
    using assms(1) fresh by (intro seats_held_no_booking) (auto simp: ledger_inv_def)
  show ?thesis
    unfolding new using assms(1) fresh range none
    by (auto simp: ledger_inv_def insert_ride_def)
qed


lemma create_booking_shape:
  "snd (create_booking d u k n i) = d
   \<or> (\<exists>r. select_ride d k = Some r \<and> n \<le> available_seats r
          \<and> i \<notin> b_id ` set (ride_bookings d)
          \<and> rides (snd (create_booking d u k n i)) =
              map (\<lambda>x. if r_id x = k then x\<lparr>available_seats := available_seats x - n\<rparr> else x)
                (rides d)
          \<and> ride_bookings (snd (create_booking d u k n i)) =
              ride_bookings d @
                [\<lparr>b_id = i, ride_id = k, passenger_id = u, seats_booked = n,
                  booking_status = BConfirmed, total_price = js_times (price_per_seat r) n\<rparr>])"
  by (auto simp: create_booking_def Let_def insert_booking_def insert_message_def
        add_available_seats_def split: option.splits)

lemma ledger_inv_create_booking:
  assumes "ledger_inv d" and "0 \<le> n"
  shows "ledger_inv (snd (create_booking d u k n i))"
  using create_booking_shape[of d u k n i]
proof (elim disjE exE conjE)
  assume "snd (create_booking d u k n i) = d"
  with assms(1) show ?thesis by simp
next
  fix r :: ride
  let ?d' = "snd (create_booking d u k n i)"
  let ?b = "\<lparr>b_id = i, ride_id = k, passenger_id = u, seats_booked = n,
             booking_status = BConfirmed, total_price = js_times (price_per_seat r) n\<rparr>"
  assume ride: "select_ride d k = Some r" and enough: "n \<le> available_seats r"
    and fresh: "i \<notin> b_id ` set (ride_bookings d)"
    and rd: "rides ?d' =
              map (\<lambda>x. if r_id x = k then x\<lparr>available_seats := available_seats x - n\<rparr> else x)
                (rides d)"
    and bk: "ride_bookings ?d' = ride_bookings d @ [?b]"
  have keys: "distinct (map r_id (rides d))" "distinct (map b_id (ride_bookings d))"
    using assms(1) by (simp_all add: ledger_inv_def)
  have rk: "r_id r = k" "r \<in> set (rides d)"
    using select_rideD[OF ride] by simp_all
  have only: "x = r" if "x \<in> set (rides d)" "r_id x = k" for x
    using distinct_find_unique[OF keys(1), of k r x] ride that by (simp add: select_ride_def)
  have ids: "map r_id (rides ?d') = map r_id (rides d)"
    unfolding rd by (simp add: comp_def if_distrib[of r_id] cong: if_cong)
  have "distinct (map r_id (rides ?d'))"
    using keys(1) ids by simp
  moreover have "distinct (map b_id (ride_bookings ?d'))"
    unfolding bk using keys(2) fresh by simp
  moreover have "\<forall>b\<in>set (ride_bookings ?d'). 0 \<le> seats_booked b \<and> ride_id b \<in> r_id ` set (rides ?d')"
  proof -
    have "r_id ` set (rides ?d') = r_id ` set (rides d)"
      using ids by (metis set_map)
    then show ?thesis
      unfolding bk using assms rk by (auto simp: ledger_inv_def)
  qed
  moreover have "\<forall>x\<in>set (rides ?d'). 0 \<le> available_seats x
           \<and> available_seats x + seats_held (ride_bookings ?d') (r_id x) \<le> total_seats x"
  proof
    fix x assume "x \<in> set (rides ?d')"
    then obtain y where y: "y \<in> set (rides d)"
      and x: "x = (if r_id y = k then y\<lparr>available_seats := available_seats y - n\<rparr> else y)"
      unfolding rd by auto
    have invy: "0 \<le> available_seats y
        \<and> available_seats y + seats_held (ride_bookings d) (r_id y) \<le> total_seats y"
      using assms(1) y by (simp add: ledger_inv_def)
    show "0 \<le> available_seats x
           \<and> available_seats x + seats_held (ride_bookings ?d') (r_id x) \<le> total_seats x"
    proof (cases "r_id y = k")
      case True
      then have "y = r" using only y by simp
      with True x invy enough show ?thesis
        unfolding bk by (simp add: seats_held_snoc)
    next
      case False
      with x invy show ?thesis
        unfolding bk by (simp add: seats_held_snoc)
    qed
  qed
  ultimately show ?thesis
    by (simp add: ledger_inv_def)
qed

lemma cancel_booking_shape:
  "snd (cancel_booking d u i) = d
   \<or> (\<exists>b. select_booking d i = Some b \<and> booking_status b \<noteq> BCancelled
          \<and> rides (snd (cancel_booking d u i)) =
              map (\<lambda>x. if r_id x = ride_id b
                        then x\<lparr>available_seats := available_seats x + seats_booked b\<rparr> else x)
                (rides d)
          \<and> ride_bookings (snd (cancel_booking d u i)) =
              map (\<lambda>x. if b_id x = i then x\<lparr>booking_status := BCancelled\<rparr> else x)
                (ride_bookings d))"
  by (auto simp: cancel_booking_def Let_def update_booking_status_def insert_message_def
        add_available_seats_def split: option.splits)

lemma ledger_inv_cancel_booking:
  assumes "ledger_inv d"
  shows "ledger_inv (snd (cancel_booking d u i))"
  using cancel_booking_shape[of d u i]
proof (elim disjE exE conjE)
  assume "snd (cancel_booking d u i) = d"
  with assms(1) show ?thesis by simp
next
  fix b
  let ?d' = "snd (cancel_booking d u i)"
  assume bsel: "select_booking d i = Some b" and live: "booking_status b \<noteq> BCancelled"
    and rd: "rides ?d' =
              map (\<lambda>x. if r_id x = ride_id b
                        then x\<lparr>available_seats := available_seats x + seats_booked b\<rparr> else x)
                (rides d)"
    and bk: "ride_bookings ?d' =
              map (\<lambda>x. if b_id x = i then x\<lparr>booking_status := BCancelled\<rparr> else x)
                (ride_bookings d)"
  have keys: "distinct (map r_id (rides d))" "distinct (map b_id (ride_bookings d))"
    using assms(1) by (simp_all add: ledger_inv_def)
  have bin: "b \<in> set (ride_bookings d)"
    using select_bookingD[OF bsel] by simp
  have bpos: "0 \<le> seats_booked b"
    using assms(1) bin by (simp add: ledger_inv_def)
  have ids: "map r_id (rides ?d') = map r_id (rides d)"
    unfolding rd by (simp add: comp_def if_distrib[of r_id] cong: if_cong)
  have bids: "map b_id (ride_bookings ?d') = map b_id (ride_bookings d)"
    unfolding bk by (simp add: comp_def if_distrib[of b_id] cong: if_cong)
  have held: "seats_held (ride_bookings ?d') k =
                seats_held (ride_bookings d) k - (if ride_id b = k then seats_booked b else 0)" for k
    unfolding bk using seats_held_cancel_one[OF keys(2) _ live, of i k] bsel
    by (simp add: select_booking_def)
  have "distinct (map r_id (rides ?d'))"
    using keys(1) ids by simp
  moreover have "distinct (map b_id (ride_bookings ?d'))"
    using keys(2) bids by simp
  moreover have "\<forall>b\<in>set (ride_bookings ?d'). 0 \<le> seats_booked b \<and> ride_id b \<in> r_id ` set (rides ?d')"
  proof -
    have "r_id ` set (rides ?d') = r_id ` set (rides d)"
      using ids by (metis set_map)
    then show ?thesis
      unfolding bk using assms by (auto simp: ledger_inv_def)
  qed
  moreover have "\<forall>x\<in>set (rides ?d'). 0 \<le> available_seats x
           \<and> available_seats x + seats_held (ride_bookings ?d') (r_id x) \<le> total_seats x"
  proof
    fix x assume "x \<in> set (rides ?d')"
    then obtain y where y: "y \<in> set (rides d)"
      and x: "x = (if r_id y = ride_id b
                   then y\<lparr>available_seats := available_seats y + seats_booked b\<rparr> else y)"
      unfolding rd by auto
    have invy: "0 \<le> available_seats y
        \<and> available_seats y + seats_held (ride_bookings d) (r_id y) \<le> total_seats y"
      using assms(1) y by (simp add: ledger_inv_def)
    show "0 \<le> available_seats x
           \<and> available_seats x + seats_held (ride_bookings ?d') (r_id x) \<le> total_seats x"
      using x invy bpos by (cases "r_id y = ride_id b") (simp_all add: held)
  qed
  ultimately show ?thesis
    by (simp add: ledger_inv_def)
qed

lemma update_ride_status_shape:
  "snd (update_ride_status d u k st c) = d
   \<or> (\<exists>C. rides (snd (update_ride_status d u k st c)) =
             map (\<lambda>r. if r_id r = k then r\<lparr>status := st\<rparr> else r) (rides d)
          \<and> ride_bookings (snd (update_ride_status d u k st c)) =
              map (\<lambda>b. if C b then b\<lparr>booking_status := BCancelled\<rparr> else b) (ride_bookings d))"
proof (cases "snd (update_ride_status d u k st c) = d")
  case True
  then show ?thesis by simp
next
  case False
  then obtain ride where ride: "select_ride d k = Some ride" "driver_id ride = u"
    by (auto simp: update_ride_status_def split: option.splits if_splits)
  show ?thesis
  proof (cases "st = Cancelled")
    case True
    with ride have "rides (snd (update_ride_status d u k st c)) =
             map (\<lambda>r. if r_id r = k then r\<lparr>status := st\<rparr> else r) (rides d)
          \<and> ride_bookings (snd (update_ride_status d u k st c)) =
              map (\<lambda>b. if b_id b \<in> b_id ` set (select_confirmed d k)
                        then b\<lparr>booking_status := BCancelled\<rparr> else b) (ride_bookings d)"
      by (simp add: update_ride_status_def Let_def update_ride_status_row_def
            cancel_bookings_rides cancel_bookings_bookings)
    then show ?thesis
      by (intro disjI2 exI[of _ "\<lambda>b. b_id b \<in> b_id ` set (select_confirmed d k)"])
  next
    case False
    with ride have "rides (snd (update_ride_status d u k st c)) =
             map (\<lambda>r. if r_id r = k then r\<lparr>status := st\<rparr> else r) (rides d)
          \<and> ride_bookings (snd (update_ride_status d u k st c)) =
              map (\<lambda>b. if False then b\<lparr>booking_status := BCancelled\<rparr> else b) (ride_bookings d)"
      by (simp add: update_ride_status_def Let_def update_ride_status_row_def)
    then show ?thesis
      by (intro disjI2 exI[of _ "\<lambda>b. False"])
  qed
qed

lemma ledger_inv_update_ride_status:
  assumes "ledger_inv d"
  shows "ledger_inv (snd (update_ride_status d u k st c))"
  using update_ride_status_shape[of d u k st c]
proof (elim disjE exE conjE)
  assume "snd (update_ride_status d u k st c) = d"
  with assms(1) show ?thesis by simp
next
  fix C :: "booking \<Rightarrow> bool"
  let ?d' = "snd (update_ride_status d u k st c)"
  assume rd: "rides ?d' = map (\<lambda>r. if r_id r = k then r\<lparr>status := st\<rparr> else r) (rides d)"
    and bk: "ride_bookings ?d' =
              map (\<lambda>b. if C b then b\<lparr>booking_status := BCancelled\<rparr> else b) (ride_bookings d)"
  have ids: "map r_id (rides ?d') = map r_id (rides d)"
    unfolding rd by (simp add: comp_def if_distrib[of r_id] cong: if_cong)
  then have rset: "r_id ` set (rides ?d') = r_id ` set (rides d)"
    by (metis set_map)
  have bids: "map b_id (ride_bookings ?d') = map b_id (ride_bookings d)"
    unfolding bk by (simp add: comp_def if_distrib[of b_id] cong: if_cong)
  have pos: "\<forall>b\<in>set (ride_bookings d). 0 \<le> seats_booked b"
    using assms by (simp add: ledger_inv_def)
  have held: "seats_held (ride_bookings ?d') j \<le> seats_held (ride_bookings d) j" for j
    unfolding bk using seats_held_cancel_le[OF pos] .
  have "distinct (map r_id (rides ?d'))" "distinct (map b_id (ride_bookings ?d'))"
    using assms ids bids by (simp_all add: ledger_inv_def)
  moreover have "\<forall>b\<in>set (ride_bookings ?d'). 0 \<le> seats_booked b \<and> ride_id b \<in> r_id ` set (rides ?d')"
    unfolding rset bk using assms by (auto simp: ledger_inv_def)
  moreover have "\<forall>x\<in>set (rides ?d'). 0 \<le> available_seats x
           \<and> available_seats x + seats_held (ride_bookings ?d') (r_id x) \<le> total_seats x"
  proof
    fix x assume "x \<in> set (rides ?d')"
    then obtain y where y: "y \<in> set (rides d)"
      and x: "x = (if r_id y = k then y\<lparr>status := st\<rparr> else y)"
      unfolding rd by auto
    have invy: "0 \<le> available_seats y
        \<and> available_seats y + seats_held (ride_bookings d) (r_id y) \<le> total_seats y"
      using assms(1) y by (simp add: ledger_inv_def)
    show "0 \<le> available_seats x
           \<and> available_seats x + seats_held (ride_bookings ?d') (r_id x) \<le> total_seats x"
      using x invy held[of "r_id y"] by (cases "r_id y = k") simp_all
  qed
  ultimately show ?thesis
    by (simp add: ledger_inv_def)
qed

lemma ledger_inv_step:
  "ledger_inv d \<Longrightarrow> well_formed q \<Longrightarrow> ledger_inv (step d q)"
  by (cases q)
     (simp_all add: ledger_inv_create_ride ledger_inv_create_booking ledger_inv_cancel_booking
        ledger_inv_update_ride_status del: well_formed.simps(1))

lemma ledger_inv_run:
  "ledger_inv d \<Longrightarrow> \<forall>q\<in>set reqs. well_formed q \<Longrightarrow> ledger_inv (run d reqs)"
  unfolding run_def by (induction reqs arbitrary: d) (simp_all add: ledger_inv_step)

lemma ledger_inv_empty: "ledger_inv empty_db"
  by (simp add: ledger_inv_def empty_db_def)

lemma ledger_inv_bounds:
  assumes "ledger_inv d" and "r \<in> set (rides d)"
  shows "0 \<le> available_seats r \<and> available_seats r \<le> total_seats r"
proof -
  have "0 \<le> seats_held (ride_bookings d) (r_id r)"
    using assms(1) by (intro seats_held_nonneg) (simp add: ledger_inv_def)
  moreover have "0 \<le> available_seats r
      \<and> available_seats r + seats_held (ride_bookings d) (r_id r) \<le> total_seats r"
    using assms by (simp add: ledger_inv_def)
  ultimately show ?thesis by linarith
qed


text \<open>
  Claim C1, as stated, fails: the route that creates a ride stores the available seats
  the body names without comparing them with the total, and the route that creates a
  booking subtracts a negative number of seats as readily as a positive one. A ride of four
  seats published with ten available has ten; a ride of four seats, all available, has five
  after a booking of minus one seat.
\<close>

theorem seats_out_of_bounds:
  "map total_seats
     (rides (run empty_db [CreateRide ''d1'' (demo_body\<lparr>body_available_seats := Some 10\<rparr>) ''r1''])) = [4]
 \<and> map available_seats
     (rides (run empty_db [CreateRide ''d1'' (demo_body\<lparr>body_available_seats := Some 10\<rparr>) ''r1''])) = [10]
 \<and> map total_seats
     (rides (run empty_db [CreateRide ''d1'' demo_body ''r1'',
                           CreateBooking ''p1'' ''r1'' (- 1) ''b1''])) = [4]
 \<and> map available_seats
     (rides (run empty_db [CreateRide ''d1'' demo_body ''r1'',
                           CreateBooking ''p1'' ''r1'' (- 1) ''b1''])) = [5]"
  by (simp add: run_def empty_db_def demo_body_def create_ride_def create_booking_def
        insert_ride_def insert_booking_def insert_message_def add_available_seats_def
        select_ride_def select_booking_def select_active_booking_def seats_or_total_def Let_def)

text \<open>
  Claim C1, amended. Let the seat numbers of all requests be whole numbers. Starting from
  the empty store, after any sequence of requests that create rides, create bookings,
  cancel bookings and update the status of rides (the cancellation of a ride included),
  every ride has available seats from 0 to its total, provided every request that creates a
  ride has a total from 0 to \<open>2^53 - 1\<close> and names either no available seats or a number
  from 0 to the total, and every request that creates a booking asks for a number of seats
  that is not negative.
\<close>

theorem seats_within_bounds:
  assumes "\<forall>q\<in>set reqs. well_formed q"
  shows "\<forall>r\<in>set (rides (run empty_db reqs)).
           0 \<le> available_seats r \<and> available_seats r \<le> total_seats r"
  using ledger_inv_bounds[OF ledger_inv_run[OF ledger_inv_empty assms]] by blast

text \<open>
  The run of the example: the ride ends with its four seats available out of four, and
  cancelled, and the booking cancelled.
\<close>

theorem seats_within_bounds_witness:
  "list_all well_formed scenario
 \<and> list_all (\<lambda>r. 0 \<le> available_seats r \<and> available_seats r \<le> total_seats r)
     (rides (run empty_db scenario))
 \<and> map available_seats (rides (run empty_db scenario)) = [4]
 \<and> map total_seats (rides (run empty_db scenario)) = [4]"
proof -
  have wf: "\<forall>q\<in>set scenario. well_formed q"
    by (simp add: scenario_def demo_body_def max_safe_integer_def)
  have final: "map available_seats (rides (run empty_db scenario)) = [4]
     \<and> map total_seats (rides (run empty_db scenario)) = [4]"
    by (simp add: scenario_def run_def empty_db_def demo_body_def create_ride_def
          create_booking_def cancel_booking_def update_ride_status_def
          insert_ride_def insert_booking_def insert_message_def add_available_seats_def
          update_booking_status_def update_ride_status_row_def select_confirmed_def
          select_ride_def select_booking_def select_active_booking_def seats_or_total_def
          reason_text_def Let_def)
  from seats_within_bounds[OF wf] wf final show ?thesis
    by (simp add: list_all_iff)
qed

section \<open>Requests that arrive together\<close>




end
